theory Spec2Isabelle
  imports Main "HOL-Library.Char_ord" "HOL-Library.List_Lexorder"
begin

section \<open>IR-high types (ir3)\<close>

text \<open>
  Modelled from the spec: the module \<open>ir3\<close> (the IR-high data model) is not among the
  sources.  Section 3.1 of the specification gives its types: \<open>Bool\<close>, \<open>Int\<close>,
  \<open>TypeRef\<close>, \<open>Bottom\<close>, \<open>List\<close>, \<open>Set\<close>, \<open>Function(args, ret)\<close> and
  \<open>Custom(name, fields, is_exception, message)\<close>, compared structurally.  The constructor
  and field names are the ones the elaborator uses (\<open>ir3.BoolType\<close>, \<open>elem_type\<close>,
  \<open>arg_types\<close>, ...).
\<close>

datatype ir3_ExprType =
    ir3_BoolType
  | ir3_IntType
  | ir3_TypeType
  | ir3_BottomType
  | ir3_ListType ir3_ExprType
  | ir3_SetType ir3_ExprType
  | ir3_FunctionType "ir3_ExprType list" ir3_ExprType
  | ir3_CustomType string "ir3_CustomTypeArgDecl list" bool "string option"
and ir3_CustomTypeArgDecl =
    ir3_CustomTypeArgDecl string ir3_ExprType

fun isinstance_FunctionType :: "ir3_ExprType \<Rightarrow> bool" where
  "isinstance_FunctionType (ir3_FunctionType _ _) = True"
| "isinstance_FunctionType _ = False"

section \<open>IR-low types (ir0.py)\<close>

datatype ir0_ExprKind =
    ExprKind_BOOL
  | ExprKind_INT64
  | ExprKind_TYPE
  | ExprKind_TEMPLATE
  | ExprKind_VARIADIC_TYPE

datatype ir0_ExprType =
    ir0_BoolType
  | ir0_Int64Type
  | ir0_TypeType
  | ir0_TemplateType "ir0_ExprType list"
  | ir0_VariadicType

fun kind :: "ir0_ExprType \<Rightarrow> ir0_ExprKind" where
  "kind ir0_BoolType = ExprKind_BOOL"
| "kind ir0_Int64Type = ExprKind_INT64"
| "kind ir0_TypeType = ExprKind_TYPE"
| "kind (ir0_TemplateType _) = ExprKind_TEMPLATE"
| "kind ir0_VariadicType = ExprKind_VARIADIC_TYPE"

section \<open>Errors\<close>

text \<open>
  Every exception of the Python source is a value.  \<open>CompilationError\<close> carries the
  \<open>error_message\<close> argument of its constructor, as the format string together with the
  operands of Python's \<open>%\<close> (the printing of IR-high types is defined in the missing
  module \<open>ir3\<close>, so the operands are kept unformatted; likewise the IR-low types
  and kinds, whose printing belongs to the missing module \<open>utils\<close>).  The source additionally formats
  the message with the file name and the source line of the offending node.
\<close>

datatype fmt_arg =
    StrArg string
  | IntArg int
  | TypeArg ir3_ExprType
  | Ir0TypeArg ir0_ExprType
  | Ir0KindArg ir0_ExprKind

datatype error =
    CompilationError string "fmt_arg list"
  | NotImplementedError string "fmt_arg list"
  | AssertionError
  | KeyError
  | IndexError

definition is_CompilationError :: "error + 'a \<Rightarrow> bool" where
  "is_CompilationError r = (case r of Inl (CompilationError _ _) \<Rightarrow> True | _ \<Rightarrow> False)"

section \<open>The surface syntax tree\<close>

text \<open>
  The input is a tree of \<open>typed_ast.ast3\<close> nodes, an external library.  The node classes the
  modelled functions inspect are constructors of \<open>ast\<close>; \<open>ast_Other\<close> stands for every
  other class.  A \<open>Lambda\<close> carries the fields of its \<open>arguments\<close> object (the names of
  \<open>args\<close>, then \<open>vararg\<close>, \<open>kwonlyargs\<close>, \<open>kw_defaults\<close>, \<open>defaults\<close>) and its body.
  Source positions are kept only where a result depends on them (\<open>lineno\<close> of an assert).

  The payload \<open>n\<close> of an \<open>ast.Num\<close> node is a Python int, float or complex.  The
  elaborator only tests which of the three it is, so the float and complex payloads are
  kept as uninterpreted integer pairs.
\<close>

datatype py_number =
    PyInt int
  | PyFloat int int
  | PyComplex int int

datatype ast =
    ast_Num py_number
  | ast_Str string
  | ast_Name string
  | ast_arg string
  | ast_keyword string ast
  | ast_List "ast list"
  | ast_Tuple "ast list"
  | ast_Dict "ast list" "ast list"
  | ast_Lambda "string list" "ast option" "ast list" "ast list" "ast list" ast
  | ast_Call ast "ast list" "ast list"
  | ast_Assert ast "ast option" int
  | ast_Other string "ast list"

section \<open>Symbol tables and the compilation context (ast\_to\_ir3.py)\<close>

record Symbol =
  symbol_type :: ir3_ExprType
  symbol_name :: string
  is_function_that_may_throw :: bool

text \<open>
  A \<open>SymbolTable\<close> is a dict from names to \<open>(symbol, definition node, is only partially
  defined)\<close> and an optional parent table.
\<close>

datatype SymbolTable =
  SymbolTable (symbols_by_name: "string \<rightharpoonup> (Symbol \<times> ast \<times> bool)") (parent: "SymbolTable option")

record SymbolLookupResult =
  symbol :: Symbol
  ast_node :: ast
  is_only_partially_defined :: bool
  symbol_table :: SymbolTable

fun get_symbol_definition :: "SymbolTable \<Rightarrow> string \<Rightarrow> SymbolLookupResult option" where
  "get_symbol_definition (SymbolTable syms par) name =
     (case syms name of
        Some (smb, node, partially) \<Rightarrow>
          Some \<lparr>symbol = smb, ast_node = node, is_only_partially_defined = partially,
                symbol_table = SymbolTable syms par\<rparr>
      | None \<Rightarrow>
          (case par of
             Some p \<Rightarrow> get_symbol_definition p name
           | None \<Rightarrow> None))"


record CompilationContext =
  ctx_symbol_table :: SymbolTable
  custom_types_symbol_table :: SymbolTable
  partially_typechecked_function_definitions_by_name :: "string \<rightharpoonup> ast"
  filename :: string
  source_lines :: "string list"
  current_function_name :: "string option"




section \<open>Front end: number literals (ast\_to\_ir3.py)\<close>

datatype ir3_IntLiteral = ir3_IntLiteral (literal_value: int)

definition number_literal_expression_ast_to_ir3 :: "py_number \<Rightarrow> bool \<Rightarrow> error + ir3_IntLiteral" where
  "number_literal_expression_ast_to_ir3 n positive =
     (case n of
        PyFloat _ _ \<Rightarrow> Inl (CompilationError ''Floating-point values are not supported.'' [])
      | PyComplex _ _ \<Rightarrow> Inl (CompilationError ''Complex values are not supported.'' [])
      | PyInt i \<Rightarrow>
          (let n = (if \<not> positive then - i else i) in
           if n \<le> - (2 ^ 63) then
             Inl (CompilationError ''int value out of bounds: values lower than -2^63+1 are not supported.'' [])
           else if n \<ge> 2 ^ 63 then
             Inl (CompilationError ''int value out of bounds: values greater than 2^63-1 are not supported.'' [])
           else Inr (ir3_IntLiteral n)))"

text \<open>The value a literal denotes: the payload, negated under a unary minus.\<close>

definition literal_denotation :: "int \<Rightarrow> bool \<Rightarrow> int" where
  "literal_denotation i positive = (if positive then i else - i)"

section \<open>Front end: equality comparisons (ast\_to\_ir3.py)\<close>

text \<open>
  \<open>_is_structural_equality_check_supported_for_type\<close>.  The final \<open>else\<close> of the source
  (reached by \<open>BottomType\<close>) raises \<open>NotImplementedError\<close> with the class name.  Python's
  \<open>all\<close> over a generator stops at the first false element, and an exception raised while
  producing an element propagates.
\<close>

fun is_structural_equality_check_supported_for_type :: "ir3_ExprType \<Rightarrow> error + bool"
  and is_structural_equality_check_supported_for_arg :: "ir3_CustomTypeArgDecl \<Rightarrow> error + bool"
  and all_structural_equality_check_supported :: "ir3_CustomTypeArgDecl list \<Rightarrow> error + bool"
where
  "is_structural_equality_check_supported_for_type ir3_BoolType = Inr True"
| "is_structural_equality_check_supported_for_type ir3_IntType = Inr True"
| "is_structural_equality_check_supported_for_type ir3_TypeType = Inr True"
| "is_structural_equality_check_supported_for_type (ir3_FunctionType _ _) = Inr False"
| "is_structural_equality_check_supported_for_type (ir3_ListType elem_type) =
     is_structural_equality_check_supported_for_type elem_type"
| "is_structural_equality_check_supported_for_type (ir3_SetType _) = Inr False"
| "is_structural_equality_check_supported_for_type (ir3_CustomType _ arg_types _ _) =
     all_structural_equality_check_supported arg_types"
| "is_structural_equality_check_supported_for_type ir3_BottomType =
     Inl (NotImplementedError ''Unexpected type: %s'' [StrArg ''BottomType''])"
| "is_structural_equality_check_supported_for_arg (ir3_CustomTypeArgDecl _ t) =
     is_structural_equality_check_supported_for_type t"
| "all_structural_equality_check_supported [] = Inr True"
| "all_structural_equality_check_supported (arg_type # rest) =
     (case is_structural_equality_check_supported_for_arg arg_type of
        Inl e \<Rightarrow> Inl e
      | Inr b \<Rightarrow> if b then all_structural_equality_check_supported rest else Inr False)"

fun is_equality_check_supported_for_type :: "ir3_ExprType \<Rightarrow> error + bool" where
  "is_equality_check_supported_for_type (ir3_SetType elem_type) =
     is_structural_equality_check_supported_for_type elem_type"
| "is_equality_check_supported_for_type t = is_structural_equality_check_supported_for_type t"

text \<open>
  The expression elaborator \<open>expression_ast_to_ir3\<close> is a recursive dispatcher over the whole
  surface syntax.  The functions below receive it as the parameter \<open>elab\<close>, applied to the
  sub-nodes exactly where the source calls it, so that every result holds for whatever the
  sub-expressions elaborate to.  Elaborated expressions are values of an arbitrary type
  \<open>'e\<close>; \<open>expr_type\<close> reads the \<open>type\<close> field every IR-high expression carries.
\<close>

type_synonym 'e elaborator =
  "ast \<Rightarrow> CompilationContext \<Rightarrow> bool \<Rightarrow> (string \<Rightarrow> error option) \<Rightarrow> error + 'e"

text \<open>
  The last argument of an elaborator is the callback \<open>check_var_reference\<close>, called with each
  \<open>ast.Name\<close> node that refers to a variable; the model passes the node's \<open>id\<close> and the
  callback answers with the exception it raises, if any.
\<close>

definition no_check :: "string \<Rightarrow> error option" where
  "no_check name = None"

datatype 'e ir3_EqualityComparison = ir3_EqualityComparison 'e 'e

datatype 'e ir3_NotExpr = ir3_NotExpr 'e

definition eq_ast_to_ir3 ::
  "'e elaborator \<Rightarrow> ('e \<Rightarrow> ir3_ExprType) \<Rightarrow> ast \<Rightarrow> ast \<Rightarrow> CompilationContext \<Rightarrow> bool
     \<Rightarrow> (string \<Rightarrow> error option) \<Rightarrow> error + 'e ir3_EqualityComparison" where
  "eq_ast_to_ir3 elab expr_type lhs_node rhs_node compilation_context in_match_pattern check_var_reference =
     (if in_match_pattern then Inl AssertionError
      else case elab lhs_node compilation_context in_match_pattern check_var_reference of
             Inl e \<Rightarrow> Inl e | Inr lhs \<Rightarrow>
           case elab rhs_node compilation_context in_match_pattern check_var_reference of
             Inl e \<Rightarrow> Inl e | Inr rhs \<Rightarrow>
           if expr_type lhs \<noteq> expr_type rhs then
             Inl (CompilationError ''Type mismatch in ==: %s vs %s''
                    [TypeArg (expr_type lhs), TypeArg (expr_type rhs)])
           else case is_equality_check_supported_for_type (expr_type lhs) of
             Inl e \<Rightarrow> Inl e
           | Inr supported \<Rightarrow>
               if \<not> supported then
                 Inl (CompilationError ''Type not supported in equality comparison: %s''
                        [TypeArg (expr_type lhs)])
               else Inr (ir3_EqualityComparison lhs rhs))"

definition not_eq_ast_to_ir3 ::
  "'e elaborator \<Rightarrow> ('e \<Rightarrow> ir3_ExprType) \<Rightarrow> ast \<Rightarrow> ast \<Rightarrow> CompilationContext \<Rightarrow> bool
     \<Rightarrow> (string \<Rightarrow> error option) \<Rightarrow> error + 'e ir3_EqualityComparison ir3_NotExpr" where
  "not_eq_ast_to_ir3 elab expr_type lhs_node rhs_node compilation_context in_match_pattern check_var_reference =
     (if in_match_pattern then Inl AssertionError
      else case elab lhs_node compilation_context in_match_pattern check_var_reference of
             Inl e \<Rightarrow> Inl e | Inr lhs \<Rightarrow>
           case elab rhs_node compilation_context in_match_pattern check_var_reference of
             Inl e \<Rightarrow> Inl e | Inr rhs \<Rightarrow>
           if expr_type lhs \<noteq> expr_type rhs then
             Inl (CompilationError ''Type mismatch in !=: %s vs %s''
                    [TypeArg (expr_type lhs), TypeArg (expr_type rhs)])
           else case is_equality_check_supported_for_type (expr_type lhs) of
             Inl e \<Rightarrow> Inl e
           | Inr supported \<Rightarrow>
               if \<not> supported then
                 Inl (CompilationError ''Type not supported in equality comparison: %s''
                        [TypeArg (expr_type lhs)])
               else Inr (ir3_NotExpr (ir3_EqualityComparison lhs rhs)))"

text \<open>
  The equality support relation as C6 words it, to be compared with the source's: a list is
  supported when its element type is \<^emph>\<open>supported\<close>, a set and a custom type are judged by
  structural support (the source's predicate) of the element and field types.
\<close>

fun claimed_equality_supported :: "ir3_ExprType \<Rightarrow> bool" where
  "claimed_equality_supported ir3_BoolType = True"
| "claimed_equality_supported ir3_IntType = True"
| "claimed_equality_supported ir3_TypeType = True"
| "claimed_equality_supported (ir3_ListType elem_type) = claimed_equality_supported elem_type"
| "claimed_equality_supported (ir3_SetType elem_type) =
     (is_structural_equality_check_supported_for_type elem_type = Inr True)"
| "claimed_equality_supported (ir3_CustomType _ arg_types _ _) =
     (\<forall>a \<in> set arg_types. is_structural_equality_check_supported_for_arg a = Inr True)"
| "claimed_equality_supported (ir3_FunctionType _ _) = False"
| "claimed_equality_supported ir3_BottomType = False"

section \<open>Front end: list displays (ast\_to\_ir3.py)\<close>

text \<open>
  The list comprehension \<open>[expression_ast_to_ir3(n, ...) for n in nodes]\<close>: the nodes are
  elaborated from left to right and the first exception ends the comprehension.
\<close>

fun elaborate_each ::
  "'e elaborator \<Rightarrow> ast list \<Rightarrow> CompilationContext \<Rightarrow> bool \<Rightarrow> (string \<Rightarrow> error option)
     \<Rightarrow> error + 'e list" where
  "elaborate_each elab [] ctx in_match_pattern check_var_reference = Inr []"
| "elaborate_each elab (n # ns) ctx in_match_pattern check_var_reference =
     (case elab n ctx in_match_pattern check_var_reference of
        Inl e \<Rightarrow> Inl e
      | Inr x \<Rightarrow>
          (case elaborate_each elab ns ctx in_match_pattern check_var_reference of
             Inl e \<Rightarrow> Inl e
           | Inr xs \<Rightarrow> Inr (x # xs)))"

datatype 'e ir3_ListExpr = ir3_ListExpr ir3_ExprType "'e list"

text \<open>The loop over \<open>zip(elem_exprs, ast_node.elts)\<close> that compares each type with the first.\<close>

fun check_list_elem_types :: "('e \<Rightarrow> ir3_ExprType) \<Rightarrow> ir3_ExprType \<Rightarrow> 'e list \<Rightarrow> error option" where
  "check_list_elem_types expr_type elem_type [] = None"
| "check_list_elem_types expr_type elem_type (elem_expr # rest) =
     (if expr_type elem_expr \<noteq> elem_type then
        Some (CompilationError ''Found different types in list elements, this is not supported. The type of this element was %s instead of %s''
                [TypeArg (expr_type elem_expr), TypeArg elem_type])
      else check_list_elem_types expr_type elem_type rest)"

definition untyped_empty_list_message :: string where
  "untyped_empty_list_message = ''Untyped empty lists are not supported. Please import empty_list from pytmp and then write e.g. empty_list(int) to create an empty list of ints.''"

text \<open>\<open>list_expression_ast_to_ir3\<close>; \<open>elts\<close> is the field of the \<open>ast.List\<close> node.\<close>

definition list_expression_ast_to_ir3 ::
  "'e elaborator \<Rightarrow> ('e \<Rightarrow> ir3_ExprType) \<Rightarrow> ast list \<Rightarrow> CompilationContext \<Rightarrow> bool
     \<Rightarrow> (string \<Rightarrow> error option) \<Rightarrow> error + 'e ir3_ListExpr" where
  "list_expression_ast_to_ir3 elab expr_type elts compilation_context in_match_pattern check_var_reference =
     (case elaborate_each elab elts compilation_context in_match_pattern check_var_reference of
        Inl e \<Rightarrow> Inl e
      | Inr elem_exprs \<Rightarrow>
          (case elem_exprs of
             [] \<Rightarrow> Inl (CompilationError untyped_empty_list_message [])
           | first # _ \<Rightarrow>
               (let elem_type = expr_type first in
                case check_list_elem_types expr_type elem_type elem_exprs of
                  Some e \<Rightarrow> Inl e
                | None \<Rightarrow>
                    if isinstance_FunctionType elem_type then
                      Inl (CompilationError ''Creating lists of functions is not supported. The elements of this list have type: %s''
                             [TypeArg elem_type])
                    else Inr (ir3_ListExpr elem_type elem_exprs))))"

section \<open>Front end: assert statements (ast\_to\_ir3.py)\<close>

subsection \<open>Python strings and sequences\<close>

definition backslash :: char where
  "backslash = CHR 0x5C"

definition double_quote :: char where
  "double_quote = CHR 0x22"

definition newline :: char where
  "newline = CHR 0x0A"

text \<open>\<open>str(n)\<close> for an int: decimal digits, with a minus sign for a negative number.\<close>

fun string_of_nat :: "nat \<Rightarrow> string" where
  "string_of_nat n =
     (if n < 10 then [''0123456789'' ! n]
      else string_of_nat (n div 10) @ [''0123456789'' ! (n mod 10)])"

declare string_of_nat.simps [simp del]

definition str_int :: "int \<Rightarrow> string" where
  "str_int i = (if i < 0 then CHR ''-'' # string_of_nat (nat (- i)) else string_of_nat (nat i))"

text \<open>
  \<open>s.replace(old, new)\<close> where \<open>old\<close> is a string of one character: every occurrence of the
  character is replaced.
\<close>

definition str_replace :: "char \<Rightarrow> string \<Rightarrow> string \<Rightarrow> string" where
  "str_replace old new s = concat (map (\<lambda>c. if c = old then new else [c]) s)"

text \<open>\<open>xs[i]\<close>: a negative index counts from the end, an index out of range raises.\<close>

definition py_index :: "'a list \<Rightarrow> int \<Rightarrow> error + 'a" where
  "py_index xs i =
     (let j = (if i < 0 then int (length xs) + i else i)
      in if 0 \<le> j \<and> j < int (length xs) then Inr (xs ! nat j) else Inl IndexError)"

subsection \<open>The elaboration of an assert\<close>

datatype 'e ir3_Assert = ir3_Assert (assert_expr: 'e) (assert_message: string)

text \<open>
  The text composed by formatting
  \<open>'TMPPy assertion failed: {message}\n{filename}:{first_line_number}: {line}'\<close>.
\<close>

definition assertion_failed_text :: "string \<Rightarrow> string \<Rightarrow> int \<Rightarrow> string \<Rightarrow> string" where
  "assertion_failed_text message fname first_line_number line =
     ''TMPPy assertion failed: '' @ message @ [newline] @ fname @ '':'' @ str_int first_line_number
       @ '': '' @ line"

text \<open>
  The chain \<open>message.replace('\\', '\\\\').replace('"', '\"').replace('\n', '\\n')\<close>.  In
  Python source the literal \<open>'\"'\<close> denotes the string of the single character \<open>"\<close>, so the
  second call replaces a double quote by a double quote.
\<close>

definition escape_message :: "string \<Rightarrow> string" where
  "escape_message message =
     str_replace newline [backslash, CHR ''n'']
       (str_replace double_quote [double_quote]
          (str_replace backslash [backslash, backslash] message))"

text \<open>
  \<open>assert_ast_to_ir3\<close>; \<open>test\<close>, \<open>msg\<close> and \<open>lineno\<close> are the fields of the \<open>ast.Assert\<close>
  node.
\<close>

definition assert_message_literal :: "ast option \<Rightarrow> error + string" where
  "assert_message_literal msg =
     (case msg of
        None \<Rightarrow> Inr []
      | Some (ast_Str s) \<Rightarrow> Inr s
      | Some _ \<Rightarrow> Inl AssertionError)"

definition assert_ast_to_ir3 ::
  "'e elaborator \<Rightarrow> ('e \<Rightarrow> ir3_ExprType) \<Rightarrow> ast \<Rightarrow> ast option \<Rightarrow> int \<Rightarrow> CompilationContext
     \<Rightarrow> error + 'e ir3_Assert" where
  "assert_ast_to_ir3 elab expr_type test msg lineno compilation_context =
     (case elab test compilation_context False no_check of
        Inl e \<Rightarrow> Inl e
      | Inr expr \<Rightarrow>
          if expr_type expr \<noteq> ir3_BoolType then
            Inl (CompilationError ''The value passed to assert must have type bool, but got a value with type %s.''
                   [TypeArg (expr_type expr)])
          else
            (case assert_message_literal msg of
               Inl e \<Rightarrow> Inl e
             | Inr message \<Rightarrow>
                 (case py_index (source_lines compilation_context) (lineno - 1) of
                    Inl e \<Rightarrow> Inl e
                  | Inr line \<Rightarrow>
                      Inr (ir3_Assert expr
                             (escape_message
                                (assertion_failed_text message (filename compilation_context)
                                   lineno line))))))"

section \<open>Front end: match expressions (ast\_to\_ir3.py)\<close>















section \<open>Front end: joining the definitions of two branches (ast\_to\_ir3.py)\<close>







section \<open>IR-low expressions (ir0.py)\<close>

text \<open>
  The expression classes of \<open>ir0\<close>.  An \<open>AtomicTypeLiteral\<close> has the fields \<open>cpp_type\<close>,
  \<open>is_local\<close>, \<open>is_metafunction_that_may_return_error\<close> and \<open>type\<close>; a \<open>ClassMemberAccess\<close>
  the class type expression, the member name and the member type; a
  \<open>TemplateInstantiation\<close> the template expression, the arguments and the flag
  \<open>instantiation_might_trigger_static_asserts\<close>.  The value of a \<open>Literal\<close> is a Python
  bool or int.
\<close>

datatype ir0_literal_value = LiteralBool bool | LiteralInt int

datatype ir0_Expr =
    ir0_Literal ir0_literal_value
  | ir0_AtomicTypeLiteral string bool bool ir0_ExprType
  | ir0_PointerTypeExpr ir0_Expr
  | ir0_ReferenceTypeExpr ir0_Expr
  | ir0_RvalueReferenceTypeExpr ir0_Expr
  | ir0_ConstTypeExpr ir0_Expr
  | ir0_ArrayTypeExpr ir0_Expr
  | ir0_FunctionTypeExpr ir0_Expr "ir0_Expr list"
  | ir0_ComparisonExpr ir0_Expr ir0_Expr string
  | ir0_Int64BinaryOpExpr ir0_Expr ir0_Expr string
  | ir0_TemplateInstantiation ir0_Expr "ir0_Expr list" bool
  | ir0_ClassMemberAccess ir0_Expr string ir0_ExprType
  | ir0_NotExpr ir0_Expr
  | ir0_UnaryMinusExpr ir0_Expr
  | ir0_VariadicTypeExpansion ir0_Expr

text \<open>The field \<open>type\<close> that the constructor of each class sets.\<close>

fun ir0_type :: "ir0_Expr \<Rightarrow> ir0_ExprType" where
  "ir0_type (ir0_Literal (LiteralBool _)) = ir0_BoolType"
| "ir0_type (ir0_Literal (LiteralInt _)) = ir0_Int64Type"
| "ir0_type (ir0_AtomicTypeLiteral _ _ _ t) = t"
| "ir0_type (ir0_PointerTypeExpr _) = ir0_TypeType"
| "ir0_type (ir0_ReferenceTypeExpr _) = ir0_TypeType"
| "ir0_type (ir0_RvalueReferenceTypeExpr _) = ir0_TypeType"
| "ir0_type (ir0_ConstTypeExpr _) = ir0_TypeType"
| "ir0_type (ir0_ArrayTypeExpr _) = ir0_TypeType"
| "ir0_type (ir0_FunctionTypeExpr _ _) = ir0_TypeType"
| "ir0_type (ir0_ComparisonExpr _ _ _) = ir0_BoolType"
| "ir0_type (ir0_Int64BinaryOpExpr _ _ _) = ir0_Int64Type"
| "ir0_type (ir0_TemplateInstantiation _ _ _) = ir0_TypeType"
| "ir0_type (ir0_ClassMemberAccess _ _ member_type) = member_type"
| "ir0_type (ir0_NotExpr _) = ir0_BoolType"
| "ir0_type (ir0_UnaryMinusExpr _) = ir0_Int64Type"
| "ir0_type (ir0_VariadicTypeExpansion _) = ir0_TypeType"

text \<open>\<open>AtomicTypeLiteral.for_local\<close>.\<close>

definition for_local :: "string \<Rightarrow> ir0_ExprType \<Rightarrow> ir0_Expr" where
  "for_local cpp_type type = ir0_AtomicTypeLiteral cpp_type True (kind type = ExprKind_TEMPLATE) type"

fun references_any_of :: "ir0_Expr \<Rightarrow> string set \<Rightarrow> bool" where
  "references_any_of (ir0_Literal _) variables = False"
| "references_any_of (ir0_AtomicTypeLiteral cpp_type _ _ _) variables = (cpp_type \<in> variables)"
| "references_any_of (ir0_PointerTypeExpr type_expr) variables = references_any_of type_expr variables"
| "references_any_of (ir0_ReferenceTypeExpr type_expr) variables = references_any_of type_expr variables"
| "references_any_of (ir0_RvalueReferenceTypeExpr type_expr) variables = references_any_of type_expr variables"
| "references_any_of (ir0_ConstTypeExpr type_expr) variables = references_any_of type_expr variables"
| "references_any_of (ir0_ArrayTypeExpr type_expr) variables = references_any_of type_expr variables"
| "references_any_of (ir0_FunctionTypeExpr return_type_expr arg_exprs) variables =
     (references_any_of return_type_expr variables
      \<or> (\<exists>expr \<in> set arg_exprs. references_any_of expr variables))"
| "references_any_of (ir0_ComparisonExpr lhs rhs _) variables =
     (references_any_of lhs variables \<or> references_any_of rhs variables)"
| "references_any_of (ir0_Int64BinaryOpExpr lhs rhs _) variables =
     (references_any_of lhs variables \<or> references_any_of rhs variables)"
| "references_any_of (ir0_TemplateInstantiation template_expr args _) variables =
     (references_any_of template_expr variables
      \<or> (\<exists>expr \<in> set args. references_any_of expr variables))"
| "references_any_of (ir0_ClassMemberAccess expr _ _) variables = references_any_of expr variables"
| "references_any_of (ir0_NotExpr expr) variables = references_any_of expr variables"
| "references_any_of (ir0_UnaryMinusExpr expr) variables = references_any_of expr variables"
| "references_any_of (ir0_VariadicTypeExpansion expr) variables = references_any_of expr variables"

record TemplateArgDecl =
  decl_type :: ir0_ExprType
  decl_name :: string

section \<open>The writers of the C++ emitter (ir0\_to\_cpp.py)\<close>

text \<open>
  A \<open>ToplevelWriter\<close> owns the identifier generator and a list of strings; a
  \<open>TemplateElemWriter\<close> has a list of its own and forwards identifiers and top-level
  elements to its top-level writer; an \<open>ExprWriter\<close> forwards everything but expression
  fragments to its parent.  The state below is what a call can change through the writer it
  is given: the number of identifiers drawn from the generator, the strings of the
  top-level writer, and the strings of the template-body writer in scope (\<open>None\<close> when the
  writer in scope is the top-level writer itself, whose \<open>write_template_body_elem\<close> is
  \<open>write_toplevel_elem\<close>).  The fragments of an \<open>ExprWriter\<close> are the string an expression
  function returns.  The identifier generator is an unbounded iterator, given as the
  function from positions to identifiers.
\<close>

record writer =
  identifier_generator :: "nat \<Rightarrow> string"
  identifiers_drawn :: nat
  toplevel_strings :: "string list"
  template_body_strings :: "string list option"

definition new_id :: "writer \<Rightarrow> string \<times> writer" where
  "new_id w = (identifier_generator w (identifiers_drawn w),
               w\<lparr>identifiers_drawn := Suc (identifiers_drawn w)\<rparr>)"

definition write_toplevel_elem :: "string \<Rightarrow> writer \<Rightarrow> writer" where
  "write_toplevel_elem s w = w\<lparr>toplevel_strings := toplevel_strings w @ [s]\<rparr>"

definition write_template_body_elem :: "string \<Rightarrow> writer \<Rightarrow> writer" where
  "write_template_body_elem s w =
     (case template_body_strings w of
        None \<Rightarrow> write_toplevel_elem s w
      | Some strings \<Rightarrow> w\<lparr>template_body_strings := Some (strings @ [s])\<rparr>)"

text \<open>\<open>', '.join(strings)\<close>.\<close>

fun join_comma :: "string list \<Rightarrow> string" where
  "join_comma [] = []"
| "join_comma [s] = s"
| "join_comma (s # rest) = s @ '', '' @ join_comma rest"

fun type_to_template_param_declaration :: "ir0_ExprType \<Rightarrow> string" where
  "type_to_template_param_declaration ir0_BoolType = ''bool''"
| "type_to_template_param_declaration ir0_Int64Type = ''int64_t''"
| "type_to_template_param_declaration ir0_TypeType = ''typename''"
| "type_to_template_param_declaration (ir0_TemplateType argtypes) =
     ''template <'' @ join_comma (map type_to_template_param_declaration argtypes) @ ''> class''"
| "type_to_template_param_declaration ir0_VariadicType = ''typename...''"

definition template_arg_decl_to_cpp :: "TemplateArgDecl \<Rightarrow> string" where
  "template_arg_decl_to_cpp arg_decl =
     type_to_template_param_declaration (decl_type arg_decl) @ '' '' @ decl_name arg_decl"

fun literal_to_cpp :: "ir0_literal_value \<Rightarrow> string" where
  "literal_to_cpp (LiteralBool b) = (if b then ''true'' else ''false'')"
| "literal_to_cpp (LiteralInt i) = str_int i @ ''LL''"

definition atomic_type_literal_expr_to_cpp :: "string \<Rightarrow> string" where
  "atomic_type_literal_expr_to_cpp cpp_type = cpp_type"

text \<open>\<open>_select_best_arg_decl_for_select1st\<close>; \<open>args[0]\<close> raises on an empty list.\<close>

fun select_best_arg_decl_loop :: "TemplateArgDecl list \<Rightarrow> TemplateArgDecl option" where
  "select_best_arg_decl_loop [] = None"
| "select_best_arg_decl_loop (arg # rest) =
     (if kind (decl_type arg) \<noteq> ExprKind_TEMPLATE then Some arg else select_best_arg_decl_loop rest)"

definition select_best_arg_decl_for_select1st :: "TemplateArgDecl list \<Rightarrow> error + TemplateArgDecl" where
  "select_best_arg_decl_for_select1st args =
     (case select_best_arg_decl_loop args of
        Some arg \<Rightarrow> Inr arg
      | None \<Rightarrow> (case args of [] \<Rightarrow> Inl IndexError | arg # _ \<Rightarrow> Inr arg))"

text \<open>\<open>_select_best_arg_expr_index_for_select1st\<close>; it asserts that there is an argument.\<close>

fun select_best_arg_expr_index_loop :: "nat \<Rightarrow> ir0_Expr list \<Rightarrow> nat option" where
  "select_best_arg_expr_index_loop i [] = None"
| "select_best_arg_expr_index_loop i (arg # rest) =
     (if kind (ir0_type arg) \<noteq> ExprKind_TEMPLATE then Some i
      else select_best_arg_expr_index_loop (Suc i) rest)"

definition select_best_arg_expr_index_for_select1st :: "ir0_Expr list \<Rightarrow> error + nat" where
  "select_best_arg_expr_index_for_select1st args =
     (if args = [] then Inl AssertionError
      else case select_best_arg_expr_index_loop 0 args of
             Some i \<Rightarrow> Inr i
           | None \<Rightarrow> Inr 0)"

text \<open>
  The dict of \<open>template_instantiation_to_cpp\<close> that maps the kind of the argument to replace
  and the kind of the selected parameter to the name of the predefined template; a missing
  key raises \<open>KeyError\<close>.
\<close>

fun select1st_variant_table :: "ir0_ExprKind \<Rightarrow> ir0_ExprKind \<Rightarrow> error + string" where
  "select1st_variant_table ExprKind_BOOL ExprKind_BOOL = Inr ''Select1stBoolBool''"
| "select1st_variant_table ExprKind_BOOL ExprKind_INT64 = Inr ''Select1stBoolInt64''"
| "select1st_variant_table ExprKind_BOOL ExprKind_TYPE = Inr ''Select1stBoolType''"
| "select1st_variant_table ExprKind_BOOL ExprKind_VARIADIC_TYPE = Inr ''Select1stBoolType''"
| "select1st_variant_table ExprKind_INT64 ExprKind_BOOL = Inr ''Select1stInt64Bool''"
| "select1st_variant_table ExprKind_INT64 ExprKind_INT64 = Inr ''Select1stInt64Int64''"
| "select1st_variant_table ExprKind_INT64 ExprKind_TYPE = Inr ''Select1stInt64Type''"
| "select1st_variant_table ExprKind_INT64 ExprKind_VARIADIC_TYPE = Inr ''Select1stInt64TypeType''"
| "select1st_variant_table ExprKind_TYPE ExprKind_BOOL = Inr ''Select1stTypeBool''"
| "select1st_variant_table ExprKind_TYPE ExprKind_INT64 = Inr ''Select1stTypeInt64''"
| "select1st_variant_table ExprKind_TYPE ExprKind_TYPE = Inr ''Select1stTypeType''"
| "select1st_variant_table ExprKind_TYPE ExprKind_VARIADIC_TYPE = Inr ''Select1stTypeType''"
| "select1st_variant_table _ _ = Inl KeyError"

text \<open>
  \<open>_simplify_toplevel_references\<close>: the loop strips the chain of reference and
  rvalue-reference constructors and records whether a reference was among them.
\<close>

fun simplify_loop :: "bool \<Rightarrow> ir0_Expr \<Rightarrow> bool \<times> ir0_Expr" where
  "simplify_loop has_reference (ir0_ReferenceTypeExpr type_expr) = simplify_loop True type_expr"
| "simplify_loop has_reference (ir0_RvalueReferenceTypeExpr type_expr) =
     simplify_loop has_reference type_expr"
| "simplify_loop has_reference expr = (has_reference, expr)"

definition simplify_toplevel_references :: "ir0_Expr \<Rightarrow> ir0_Expr" where
  "simplify_toplevel_references expr =
     (case simplify_loop False expr of
        (has_reference, inner) \<Rightarrow>
          if has_reference then ir0_ReferenceTypeExpr inner else ir0_RvalueReferenceTypeExpr inner)"

section \<open>The C++ emitter for expressions (ir0\_to\_cpp.py)\<close>

type_synonym 'a emit = "error + ('a \<times> writer)"

type_synonym suffix_writer = "writer \<Rightarrow> string emit"

definition no_suffix :: suffix_writer where
  "no_suffix w = Inr ([], w)"

text \<open>The name of the class of an expression.\<close>

fun class_name :: "ir0_Expr \<Rightarrow> string" where
  "class_name (ir0_Literal _) = ''Literal''"
| "class_name (ir0_AtomicTypeLiteral _ _ _ _) = ''AtomicTypeLiteral''"
| "class_name (ir0_PointerTypeExpr _) = ''PointerTypeExpr''"
| "class_name (ir0_ReferenceTypeExpr _) = ''ReferenceTypeExpr''"
| "class_name (ir0_RvalueReferenceTypeExpr _) = ''RvalueReferenceTypeExpr''"
| "class_name (ir0_ConstTypeExpr _) = ''ConstTypeExpr''"
| "class_name (ir0_ArrayTypeExpr _) = ''ArrayTypeExpr''"
| "class_name (ir0_FunctionTypeExpr _ _) = ''FunctionTypeExpr''"
| "class_name (ir0_ComparisonExpr _ _ _) = ''ComparisonExpr''"
| "class_name (ir0_Int64BinaryOpExpr _ _ _) = ''Int64BinaryOpExpr''"
| "class_name (ir0_TemplateInstantiation _ _ _) = ''TemplateInstantiation''"
| "class_name (ir0_ClassMemberAccess _ _ _) = ''ClassMemberAccess''"
| "class_name (ir0_NotExpr _) = ''NotExpr''"
| "class_name (ir0_UnaryMinusExpr _) = ''UnaryMinusExpr''"
| "class_name (ir0_VariadicTypeExpansion _) = ''VariadicTypeExpansion''"

text \<open>
  \<open>str(expr.__class__)\<close>, for the text of \<open>NotImplementedError\<close>: the qualified name of the
  class between \<open><class '\<close> and \<open>'>\<close>.
\<close>

definition str_class :: "ir0_Expr \<Rightarrow> string" where
  "str_class expr =
     ''<class '' @ [CHR 0x27] @ ''_py2tmp.ir0.'' @ class_name expr @ [CHR 0x27] @ ''>''"

fun is_reference_chain :: "ir0_Expr \<Rightarrow> bool" where
  "is_reference_chain (ir0_ReferenceTypeExpr _) = True"
| "is_reference_chain (ir0_RvalueReferenceTypeExpr _) = True"
| "is_reference_chain _ = False"

text \<open>The list comprehension that draws one fresh identifier for each argument type.\<close>

fun fresh_template_args :: "ir0_ExprType list \<Rightarrow> writer \<Rightarrow> TemplateArgDecl list \<times> writer" where
  "fresh_template_args [] w = ([], w)"
| "fresh_template_args (arg_type # rest) w =
     (case new_id w of
        (ident, w1) \<Rightarrow>
          (case fresh_template_args rest w1 of
             (decls, w2) \<Rightarrow> (\<lparr>decl_type = arg_type, decl_name = ident\<rparr> # decls, w2)))"

definition custom_select1st_text :: "string \<Rightarrow> string \<Rightarrow> string \<Rightarrow> string \<Rightarrow> string \<Rightarrow> string" where
  "custom_select1st_text template_param_decl1 forwarded_param_id template_param_decl2
       select1st_variant select1st_variant_body_str =
     ''\<newline>                    // Custom Select1st* template\<newline>                    template <'' @ template_param_decl1 @ '' '' @ forwarded_param_id @ '', '' @ template_param_decl2 @ ''>\<newline>                    struct '' @ select1st_variant @ '' {\<newline>                      '' @ select1st_variant_body_str @ ''\<newline>                    };\<newline>                    ''"

function expr_to_cpp :: "ir0_Expr \<Rightarrow> TemplateArgDecl list \<Rightarrow> writer \<Rightarrow> string emit"
  and comparison_expr_to_cpp ::
    "ir0_Expr \<Rightarrow> ir0_Expr \<Rightarrow> string \<Rightarrow> TemplateArgDecl list \<Rightarrow> writer \<Rightarrow> string emit"
  and int64_binary_op_expr_to_cpp ::
    "ir0_Expr \<Rightarrow> ir0_Expr \<Rightarrow> string \<Rightarrow> TemplateArgDecl list \<Rightarrow> writer \<Rightarrow> string emit"
  and not_expr_to_cpp :: "ir0_Expr \<Rightarrow> TemplateArgDecl list \<Rightarrow> writer \<Rightarrow> string emit"
  and unary_minus_expr_to_cpp :: "ir0_Expr \<Rightarrow> TemplateArgDecl list \<Rightarrow> writer \<Rightarrow> string emit"
  and exprs_to_cpp :: "ir0_Expr list \<Rightarrow> TemplateArgDecl list \<Rightarrow> writer \<Rightarrow> string list emit"
  and type_expr_to_cpp :: "ir0_Expr \<Rightarrow> TemplateArgDecl list \<Rightarrow> writer \<Rightarrow> string emit"
  and type_exprs_to_cpp :: "ir0_Expr list \<Rightarrow> TemplateArgDecl list \<Rightarrow> writer \<Rightarrow> string list emit"
  and type_expr_to_cpp_prefix_suffix ::
    "ir0_Expr \<Rightarrow> TemplateArgDecl list \<Rightarrow> bool \<Rightarrow> writer \<Rightarrow> (string \<times> suffix_writer) emit"
  and function_type_expr_to_cpp_prefix_suffix ::
    "ir0_Expr \<Rightarrow> ir0_Expr list \<Rightarrow> TemplateArgDecl list \<Rightarrow> bool \<Rightarrow> writer
       \<Rightarrow> (string \<times> suffix_writer) emit"
  and unary_modifier_type_expr_to_cpp_prefix_suffix ::
    "string \<Rightarrow> ir0_Expr \<Rightarrow> TemplateArgDecl list \<Rightarrow> writer \<Rightarrow> (string \<times> suffix_writer) emit"
  and template_instantiation_to_cpp ::
    "ir0_Expr \<Rightarrow> ir0_Expr list \<Rightarrow> bool \<Rightarrow> TemplateArgDecl list \<Rightarrow> writer \<Rightarrow> bool \<Rightarrow> string emit"
  and class_member_access_to_cpp ::
    "ir0_Expr \<Rightarrow> string \<Rightarrow> ir0_ExprType \<Rightarrow> TemplateArgDecl list \<Rightarrow> writer \<Rightarrow> bool \<Rightarrow> bool
       \<Rightarrow> string emit"
  and variadic_type_expansion_to_cpp :: "ir0_Expr \<Rightarrow> TemplateArgDecl list \<Rightarrow> writer \<Rightarrow> string emit"
  and constant_def_to_cpp :: "string \<Rightarrow> ir0_Expr \<Rightarrow> TemplateArgDecl list \<Rightarrow> writer \<Rightarrow> unit emit"
  and typedef_to_cpp :: "string \<Rightarrow> ir0_Expr \<Rightarrow> TemplateArgDecl list \<Rightarrow> writer \<Rightarrow> unit emit"
where
  "expr_to_cpp expr enclosing w =
     (case expr of
        ir0_Literal v \<Rightarrow> Inr (literal_to_cpp v, w)
      | ir0_ComparisonExpr lhs rhs op \<Rightarrow> comparison_expr_to_cpp lhs rhs op enclosing w
      | ir0_NotExpr e \<Rightarrow> not_expr_to_cpp e enclosing w
      | ir0_UnaryMinusExpr e \<Rightarrow> unary_minus_expr_to_cpp e enclosing w
      | ir0_Int64BinaryOpExpr lhs rhs op \<Rightarrow> int64_binary_op_expr_to_cpp lhs rhs op enclosing w
      | _ \<Rightarrow> type_expr_to_cpp expr enclosing w)"
| "comparison_expr_to_cpp lhs rhs op enclosing w =
     (case expr_to_cpp lhs enclosing w of
        Inl e \<Rightarrow> Inl e
      | Inr (l, w1) \<Rightarrow>
          (case expr_to_cpp rhs enclosing w1 of
             Inl e \<Rightarrow> Inl e
           | Inr (r, w2) \<Rightarrow> Inr (''('' @ l @ '') '' @ op @ '' ('' @ r @ '')'', w2)))"
| "int64_binary_op_expr_to_cpp lhs rhs op enclosing w =
     (case expr_to_cpp lhs enclosing w of
        Inl e \<Rightarrow> Inl e
      | Inr (l, w1) \<Rightarrow>
          (case expr_to_cpp rhs enclosing w1 of
             Inl e \<Rightarrow> Inl e
           | Inr (r, w2) \<Rightarrow> Inr (''('' @ l @ '') '' @ op @ '' ('' @ r @ '')'', w2)))"
| "not_expr_to_cpp expr enclosing w =
     (case expr_to_cpp expr enclosing w of
        Inl e \<Rightarrow> Inl e
      | Inr (inner_expr, w1) \<Rightarrow> Inr (''!('' @ inner_expr @ '')'', w1))"
| "unary_minus_expr_to_cpp expr enclosing w =
     (case expr_to_cpp expr enclosing w of
        Inl e \<Rightarrow> Inl e
      | Inr (inner_expr, w1) \<Rightarrow> Inr (''-('' @ inner_expr @ '')'', w1))"
| "exprs_to_cpp exprs enclosing w =
     (case exprs of
        [] \<Rightarrow> Inr ([], w)
      | expr # rest \<Rightarrow>
          (case expr_to_cpp expr enclosing w of
             Inl e \<Rightarrow> Inl e
           | Inr (s, w1) \<Rightarrow>
               (case exprs_to_cpp rest enclosing w1 of
                  Inl e \<Rightarrow> Inl e
                | Inr (ss, w2) \<Rightarrow> Inr (s # ss, w2))))"
| "type_expr_to_cpp expr enclosing w =
     (case type_expr_to_cpp_prefix_suffix expr enclosing False w of
        Inl e \<Rightarrow> Inl e
      | Inr ((prefix, write_suffix), w1) \<Rightarrow>
          (case write_suffix w1 of
             Inl e \<Rightarrow> Inl e
           | Inr (suffix, w2) \<Rightarrow> Inr (prefix @ suffix, w2)))"
| "type_exprs_to_cpp exprs enclosing w =
     (case exprs of
        [] \<Rightarrow> Inr ([], w)
      | expr # rest \<Rightarrow>
          (case type_expr_to_cpp expr enclosing w of
             Inl e \<Rightarrow> Inl e
           | Inr (s, w1) \<Rightarrow>
               (case type_exprs_to_cpp rest enclosing w1 of
                  Inl e \<Rightarrow> Inl e
                | Inr (ss, w2) \<Rightarrow> Inr (s # ss, w2))))"
| "type_expr_to_cpp_prefix_suffix expr0 enclosing has_modifiers w =
     (case (if is_reference_chain expr0 then simplify_toplevel_references expr0 else expr0) of
        ir0_FunctionTypeExpr return_type_expr arg_exprs \<Rightarrow>
          function_type_expr_to_cpp_prefix_suffix return_type_expr arg_exprs enclosing has_modifiers w
      | ir0_PointerTypeExpr type_expr \<Rightarrow>
          unary_modifier_type_expr_to_cpp_prefix_suffix ''*'' type_expr enclosing w
      | ir0_ReferenceTypeExpr type_expr \<Rightarrow>
          unary_modifier_type_expr_to_cpp_prefix_suffix '' &'' type_expr enclosing w
      | ir0_RvalueReferenceTypeExpr type_expr \<Rightarrow>
          unary_modifier_type_expr_to_cpp_prefix_suffix '' &&'' type_expr enclosing w
      | ir0_ConstTypeExpr type_expr \<Rightarrow>
          unary_modifier_type_expr_to_cpp_prefix_suffix '' const '' type_expr enclosing w
      | ir0_ArrayTypeExpr type_expr \<Rightarrow>
          unary_modifier_type_expr_to_cpp_prefix_suffix ''[]'' type_expr enclosing w
      | ir0_AtomicTypeLiteral cpp_type _ _ _ \<Rightarrow>
          Inr ((atomic_type_literal_expr_to_cpp cpp_type, no_suffix), w)
      | ir0_TemplateInstantiation template_expr args flag \<Rightarrow>
          (case template_instantiation_to_cpp template_expr args flag enclosing w False of
             Inl e \<Rightarrow> Inl e
           | Inr (expr_cpp_code, w1) \<Rightarrow> Inr ((expr_cpp_code, no_suffix), w1))
      | ir0_ClassMemberAccess class_type_expr member_name member_type \<Rightarrow>
          (case class_member_access_to_cpp class_type_expr member_name member_type enclosing w
                  False False of
             Inl e \<Rightarrow> Inl e
           | Inr (expr_cpp_code, w1) \<Rightarrow> Inr ((expr_cpp_code, no_suffix), w1))
      | ir0_VariadicTypeExpansion e \<Rightarrow>
          (case variadic_type_expansion_to_cpp e enclosing w of
             Inl e \<Rightarrow> Inl e
           | Inr (expr_cpp_code, w1) \<Rightarrow> Inr ((expr_cpp_code, no_suffix), w1))
      | other \<Rightarrow> Inl (NotImplementedError ''Unexpected type expr: %s'' [StrArg (str_class other)]))"
| "function_type_expr_to_cpp_prefix_suffix return_type_expr arg_exprs enclosing has_modifiers w =
     (case type_expr_to_cpp_prefix_suffix return_type_expr enclosing False w of
        Inl e \<Rightarrow> Inl e
      | Inr ((return_type_prefix, return_type_write_suffix), w1) \<Rightarrow>
          Inr ((return_type_prefix @ (if has_modifiers then ''('' else []),
                (\<lambda>w2. case type_exprs_to_cpp arg_exprs enclosing w2 of
                         Inl e \<Rightarrow> Inl e
                       | Inr (arg_strs, w3) \<Rightarrow>
                           (case return_type_write_suffix w3 of
                              Inl e \<Rightarrow> Inl e
                            | Inr (return_type_suffix, w4) \<Rightarrow>
                                Inr ((if has_modifiers then '')'' else []) @ '' ('' @ join_comma arg_strs
                                       @ '')'' @ return_type_suffix, w4)))),
               w1))"
| "unary_modifier_type_expr_to_cpp_prefix_suffix modifier_str sub_expr enclosing w =
     (case type_expr_to_cpp_prefix_suffix sub_expr enclosing True w of
        Inl e \<Rightarrow> Inl e
      | Inr ((subexpr_prefix, write_subexpr_suffix), w1) \<Rightarrow>
          Inr ((subexpr_prefix @ modifier_str, write_subexpr_suffix), w1))"
| "template_instantiation_to_cpp template_expr args0 flag enclosing w omit_typename =
     (case
        (if flag \<and> enclosing \<noteq> []
            \<and> \<not> (\<exists>arg \<in> set args0. references_any_of arg (set (map decl_name enclosing))) then
           (case select_best_arg_decl_for_select1st enclosing of
              Inl e \<Rightarrow> Inl e
            | Inr arg_decl \<Rightarrow>
           (case select_best_arg_expr_index_for_select1st args0 of
              Inl e \<Rightarrow> Inl e
            | Inr arg_index \<Rightarrow>
           (case
              (if kind (decl_type arg_decl) \<noteq> ExprKind_TEMPLATE
                  \<and> kind (ir0_type (args0 ! arg_index)) \<noteq> ExprKind_TEMPLATE then
                 (case select1st_variant_table (kind (ir0_type (args0 ! arg_index)))
                         (kind (decl_type arg_decl)) of
                    Inl e \<Rightarrow> Inl e
                  | Inr select1st_variant \<Rightarrow> Inr (select1st_variant, w))
               else
                 (case new_id w of (select1st_variant, w1) \<Rightarrow>
                  case new_id w1 of (forwarded_param_id, w2) \<Rightarrow>
                  (case
                     (if kind (ir0_type (args0 ! arg_index)) = ExprKind_BOOL
                         \<or> kind (ir0_type (args0 ! arg_index)) = ExprKind_INT64 then
                        constant_def_to_cpp ''value''
                          (for_local forwarded_param_id (ir0_type (args0 ! arg_index))) enclosing
                          (w2\<lparr>template_body_strings := Some []\<rparr>)
                      else if kind (if kind (ir0_type (args0 ! arg_index)) = ExprKind_VARIADIC_TYPE
                                    then ir0_TypeType else ir0_type (args0 ! arg_index))
                                \<noteq> ExprKind_TYPE
                              \<and> kind (if kind (ir0_type (args0 ! arg_index)) = ExprKind_VARIADIC_TYPE
                                    then ir0_TypeType else ir0_type (args0 ! arg_index))
                                \<noteq> ExprKind_TEMPLATE then
                        Inl AssertionError
                      else
                        typedef_to_cpp ''value''
                          (for_local forwarded_param_id
                             (if kind (ir0_type (args0 ! arg_index)) = ExprKind_VARIADIC_TYPE
                              then ir0_TypeType else ir0_type (args0 ! arg_index)))
                          enclosing (w2\<lparr>template_body_strings := Some []\<rparr>)) of
                     Inl e \<Rightarrow> Inl e
                   | Inr (u, w3) \<Rightarrow>
                       Inr (select1st_variant,
                            write_template_body_elem
                              (custom_select1st_text
                                 (type_to_template_param_declaration (ir0_type (args0 ! arg_index)))
                                 forwarded_param_id
                                 (type_to_template_param_declaration (decl_type arg_decl))
                                 select1st_variant
                                 (concat (case template_body_strings w3 of
                                            None \<Rightarrow> [] | Some strings \<Rightarrow> strings)))
                              (w3\<lparr>template_body_strings := template_body_strings w\<rparr>))))) of
              Inl e \<Rightarrow> Inl e
            | Inr (select1st_variant, w5) \<Rightarrow>
                Inr (take arg_index args0
                       @ [ir0_ClassMemberAccess
                            (ir0_TemplateInstantiation
                               (for_local select1st_variant
                                  (ir0_TemplateType [ir0_type (args0 ! arg_index), decl_type arg_decl]))
                               [args0 ! arg_index, for_local (decl_name arg_decl) (decl_type arg_decl)]
                               False)
                            ''value'' (ir0_type (args0 ! arg_index))]
                       @ drop (Suc arg_index) args0,
                     w5))))
         else Inr (args0, w)) of
        Inl e \<Rightarrow> Inl e
      | Inr (args, w6) \<Rightarrow>
          (case exprs_to_cpp args enclosing w6 of
             Inl e \<Rightarrow> Inl e
           | Inr (template_params, w7) \<Rightarrow>
               (case (case template_expr of
                        ir0_ClassMemberAccess class_type_expr member_name member_type \<Rightarrow>
                          class_member_access_to_cpp class_type_expr member_name member_type
                            enclosing w7 omit_typename True
                      | _ \<Rightarrow> expr_to_cpp template_expr enclosing w7) of
                  Inl e \<Rightarrow> Inl e
                | Inr (cpp_fun, w8) \<Rightarrow>
                    Inr (cpp_fun @ ''<'' @ join_comma template_params @ ''>'', w8))))"
| "class_member_access_to_cpp class_type_expr member_name member_type enclosing w omit_typename
       parent_expr_is_template_instantiation =
     (case (case class_type_expr of
              ir0_TemplateInstantiation template_expr args flag \<Rightarrow>
                template_instantiation_to_cpp template_expr args flag enclosing w True
            | ir0_ClassMemberAccess e n t \<Rightarrow>
                class_member_access_to_cpp e n t enclosing w True False
            | _ \<Rightarrow> expr_to_cpp class_type_expr enclosing w) of
        Inl e \<Rightarrow> Inl e
      | Inr (cpp_fun, w1) \<Rightarrow>
          (case member_type of
             ir0_BoolType \<Rightarrow> Inr (cpp_fun @ ''::'' @ member_name, w1)
           | ir0_Int64Type \<Rightarrow> Inr (cpp_fun @ ''::'' @ member_name, w1)
           | ir0_TypeType \<Rightarrow>
               Inr ((if omit_typename then [] else ''typename '') @ cpp_fun @ ''::'' @ member_name, w1)
           | ir0_TemplateType _ \<Rightarrow>
               Inr ((if omit_typename \<or> \<not> parent_expr_is_template_instantiation then []
                     else ''typename '')
                    @ cpp_fun @ ''::'' @ ''template '' @ member_name, w1)
           | ir0_VariadicType \<Rightarrow>
               Inl (NotImplementedError ''Member type: %s'' [StrArg ''VariadicType''])))"
| "variadic_type_expansion_to_cpp expr enclosing w =
     (case expr_to_cpp expr enclosing w of
        Inl e \<Rightarrow> Inl e
      | Inr (s, w1) \<Rightarrow> Inr (s @ ''...'', w1))"
| "constant_def_to_cpp name expr enclosing w =
     (case (case ir0_type expr of
              ir0_BoolType \<Rightarrow> Inr ''bool''
            | ir0_Int64Type \<Rightarrow> Inr ''int64_t''
            | t \<Rightarrow> Inl (NotImplementedError ''Unexpected expression type: %s'' [Ir0TypeArg t])) of
        Inl e \<Rightarrow> Inl e
      | Inr type_cpp \<Rightarrow>
          (case expr_to_cpp expr enclosing w of
             Inl e \<Rightarrow> Inl e
           | Inr (cpp_meta_expr, w1) \<Rightarrow>
               Inr ((), write_template_body_elem
                          (''        static constexpr '' @ type_cpp @ '' '' @ name @ '' = ''
                             @ cpp_meta_expr @ '';\<newline>        '') w1)))"
| "typedef_to_cpp name expr enclosing w =
     (case ir0_type expr of
        ir0_TypeType \<Rightarrow>
          (case expr_to_cpp expr enclosing w of
             Inl e \<Rightarrow> Inl e
           | Inr (cpp_meta_expr, w1) \<Rightarrow>
               Inr ((), write_template_body_elem
                          (''            using '' @ name @ '' = '' @ cpp_meta_expr
                             @ '';\<newline>            '') w1))
      | ir0_TemplateType argtypes \<Rightarrow>
          (case fresh_template_args argtypes w of
             (template_args, w1) \<Rightarrow>
               (case template_instantiation_to_cpp expr
                       (map (\<lambda>arg. for_local (decl_name arg) (decl_type arg)) template_args)
                       True enclosing w1 False of
                  Inl e \<Rightarrow> Inl e
                | Inr (cpp_meta_expr, w2) \<Rightarrow>
                    Inr ((), write_template_body_elem
                               (''            template <''
                                  @ join_comma (map template_arg_decl_to_cpp template_args)
                                  @ ''>\<newline>            using '' @ name @ '' = '' @ cpp_meta_expr
                                  @ '';\<newline>            '') w2)))
      | t \<Rightarrow> Inl (NotImplementedError ''Unexpected expression type kind: %s'' [Ir0KindArg (kind t)]))"
  by pat_completeness auto

text \<open>
  Termination.  The recursion follows the structure of the expression, except where
  \<open>template_instantiation_to_cpp\<close> emits a wrapper for an argument (the wrapped argument is
  a larger expression, and the body of a custom wrapper is a typedef or a constant of a
  fresh local name) and where \<open>typedef_to_cpp\<close> instantiates a template-typed name on fresh
  arguments.  The measure \<open>esz\<close> counts the nodes of an expression and charges a flagged
  instantiation for the wrapper and for the typedefs that the types of its arguments can
  unfold to (\<open>tcost\<close>).
\<close>

fun tcost :: "ir0_ExprType \<Rightarrow> nat" where
  "tcost (ir0_TemplateType ts) = 10 + length ts + sum_list (map tcost ts)"
| "tcost _ = 0"

fun esz :: "ir0_Expr \<Rightarrow> nat" where
  "esz (ir0_Literal _) = 1"
| "esz (ir0_AtomicTypeLiteral _ _ _ _) = 1"
| "esz (ir0_PointerTypeExpr e) = 1 + esz e"
| "esz (ir0_ReferenceTypeExpr e) = 1 + esz e"
| "esz (ir0_RvalueReferenceTypeExpr e) = 1 + esz e"
| "esz (ir0_ConstTypeExpr e) = 1 + esz e"
| "esz (ir0_ArrayTypeExpr e) = 1 + esz e"
| "esz (ir0_FunctionTypeExpr r as) = 1 + esz r + sum_list (map esz as)"
| "esz (ir0_ComparisonExpr l r _) = 1 + esz l + esz r"
| "esz (ir0_Int64BinaryOpExpr l r _) = 1 + esz l + esz r"
| "esz (ir0_TemplateInstantiation f as flag) =
     1 + esz f + sum_list (map esz as)
       + (if flag then 8 + sum_list (map (\<lambda>a. tcost (ir0_type a)) as) else 0)"
| "esz (ir0_ClassMemberAccess e _ _) = 1 + esz e"
| "esz (ir0_NotExpr e) = 1 + esz e"
| "esz (ir0_UnaryMinusExpr e) = 1 + esz e"
| "esz (ir0_VariadicTypeExpansion e) = 1 + esz e"

lemma esz_pos [simp]: "0 < esz e"
  by (cases e) simp_all

lemma simplify_loop_esz: "esz (snd (simplify_loop b e)) \<le> esz e"
  by (induction b e rule: simplify_loop.induct) auto

lemma simplify_toplevel_references_esz:
  "is_reference_chain e \<Longrightarrow> esz (simplify_toplevel_references e) \<le> esz e"
proof (cases e)
  case (ir0_ReferenceTypeExpr t)
  with simplify_loop_esz [of True t] show ?thesis
    by (cases "simplify_loop True t") (simp add: simplify_toplevel_references_def)
next
  case (ir0_RvalueReferenceTypeExpr t)
  with simplify_loop_esz [of False t] show ?thesis
    by (cases "simplify_loop False t") (simp add: simplify_toplevel_references_def)
qed simp_all

lemma simplified_esz:
  "(if is_reference_chain e then simplify_toplevel_references e else e) = e' \<Longrightarrow> esz e' \<le> esz e"
  using simplify_toplevel_references_esz [of e] by (auto split: if_splits)

lemma esz_for_local [simp]: "esz (for_local x t) = 1"
  by (simp add: for_local_def)

lemma ir0_type_for_local [simp]: "ir0_type (for_local x t) = t"
  by (simp add: for_local_def)

lemma select_best_arg_expr_index_loop_bounds:
  "select_best_arg_expr_index_loop k as = Some i \<Longrightarrow> k \<le> i \<and> i < k + length as"
  by (induction k as rule: select_best_arg_expr_index_loop.induct) (auto split: if_splits)

lemma select_best_arg_expr_index_lt:
  "select_best_arg_expr_index_for_select1st as = Inr i \<Longrightarrow> i < length as"
  using select_best_arg_expr_index_loop_bounds [of 0 as i]
  by (auto simp: select_best_arg_expr_index_for_select1st_def split: if_splits option.splits)

lemma select_best_arg_expr_index_facts:
  assumes "select_best_arg_expr_index_for_select1st as = Inr i"
  shows "i < length as \<and> tcost (ir0_type (as ! i)) \<le> (\<Sum>a\<leftarrow>as. tcost (ir0_type a))
         \<and> sum_list (map esz (take i as)) + (esz (as ! i) + sum_list (map esz (drop (Suc i) as)))
             = sum_list (map esz as)"
proof -
  from assms have i: "i < length as" by (rule select_best_arg_expr_index_lt)
  then have "map (\<lambda>a. tcost (ir0_type a)) as ! i \<in> set (map (\<lambda>a. tcost (ir0_type a)) as)"
    by (intro nth_mem) simp
  then have "map (\<lambda>a. tcost (ir0_type a)) as ! i \<le> sum_list (map (\<lambda>a. tcost (ir0_type a)) as)"
    by (rule member_le_sum_list) simp_all
  moreover have "sum_list (map esz as) = sum_list (map esz (take i as @ as ! i # drop (Suc i) as))"
    using id_take_nth_drop [OF i] by simp
  ultimately show ?thesis using i by simp
qed

lemma esz_replace_arg:
  assumes "i < length as"
  shows "sum_list (map esz (take i as @ x # drop (Suc i) as)) \<le> sum_list (map esz as) + esz x"
proof -
  have "sum_list (map esz as) = sum_list (map esz (take i as @ as ! i # drop (Suc i) as))"
    using id_take_nth_drop [OF assms] by simp
  then show ?thesis by simp
qed

lemma fresh_template_args_types:
  "fresh_template_args ts w = (decls, w') \<Longrightarrow> map decl_type decls = ts"
  by (induction ts arbitrary: w decls w') (auto split: prod.splits)

lemma fresh_template_args_measure:
  assumes "(decls, w') = fresh_template_args ts w"
  shows "(\<Sum>x\<leftarrow>decls. Suc 0) = length ts
         \<and> (\<Sum>x\<leftarrow>decls. tcost (decl_type x)) = sum_list (map tcost ts)"
proof -
  from assms have types: "map decl_type decls = ts"
    by (intro fresh_template_args_types [of ts w decls w']) simp
  have "(\<Sum>x\<leftarrow>decls. Suc 0) = length decls"
    by (induction decls) simp_all
  moreover have "length decls = length ts"
    using types by (metis length_map)
  moreover have "(\<Sum>x\<leftarrow>decls. tcost (decl_type x)) = sum_list (map tcost (map decl_type decls))"
    by (simp add: comp_def)
  ultimately show ?thesis using types by simp
qed

termination expr_to_cpp
  apply (relation "measure (case_sum
     (case_sum
        (case_sum
           (case_sum (\<lambda>(e, _). 64 * esz e + 10) (\<lambda>(l, r, _). 64 * (esz l + esz r + 1) + 5))
           (case_sum (\<lambda>(l, r, _). 64 * (esz l + esz r + 1) + 5) (\<lambda>(e, _). 64 * (esz e + 1) + 5)))
        (case_sum
           (case_sum (\<lambda>(e, _). 64 * (esz e + 1) + 5) (\<lambda>(es, _). 64 * sum_list (map esz es) + 20))
           (case_sum (\<lambda>(e, _). 64 * esz e + 9) (\<lambda>(es, _). 64 * sum_list (map esz es) + 20))))
     (case_sum
        (case_sum
           (case_sum (\<lambda>(e, _). 64 * esz e + 8) (\<lambda>(r, as, _). 64 * (1 + esz r + sum_list (map esz as)) + 7))
           (case_sum (\<lambda>(m, e, _). 64 * (esz e + 1) + 7)
                     (\<lambda>(f, as, flag, _). 64 * esz (ir0_TemplateInstantiation f as flag) + 6)))
        (case_sum
           (case_sum (\<lambda>(e, _). 64 * (esz e + 1) + 7) (\<lambda>(e, _). 64 * (esz e + 1) + 7))
           (case_sum (\<lambda>(n, e, _). 64 * esz e + 30)
                     (\<lambda>(n, e, _). 64 * (esz e + tcost (ir0_type e)) + 30)))))")
  apply simp_all
  apply (auto dest!: simplified_esz)[9]
  subgoal by (auto dest!: select_best_arg_expr_index_facts)
  subgoal for template_expr args0 flag enclosing w b x y
    apply (clarsimp split: if_splits sum.splits prod.splits)
       apply (auto dest!: select_best_arg_expr_index_facts)
    done
  subgoal by (auto dest!: fresh_template_args_measure simp: comp_def)
  done

text \<open>
  The equations of the emitter are unfolded on demand, not by the simplifier on its own.
\<close>

declare expr_to_cpp.simps [simp del] comparison_expr_to_cpp.simps [simp del]
  int64_binary_op_expr_to_cpp.simps [simp del] not_expr_to_cpp.simps [simp del]
  unary_minus_expr_to_cpp.simps [simp del] exprs_to_cpp.simps [simp del]
  type_expr_to_cpp.simps [simp del] type_exprs_to_cpp.simps [simp del]
  type_expr_to_cpp_prefix_suffix.simps [simp del]
  function_type_expr_to_cpp_prefix_suffix.simps [simp del]
  unary_modifier_type_expr_to_cpp_prefix_suffix.simps [simp del]
  template_instantiation_to_cpp.simps [simp del] class_member_access_to_cpp.simps [simp del]
  variadic_type_expansion_to_cpp.simps [simp del] constant_def_to_cpp.simps [simp del]
  typedef_to_cpp.simps [simp del]

lemmas emitter_simps =
  expr_to_cpp.simps comparison_expr_to_cpp.simps int64_binary_op_expr_to_cpp.simps
  not_expr_to_cpp.simps unary_minus_expr_to_cpp.simps exprs_to_cpp.simps
  type_expr_to_cpp.simps type_exprs_to_cpp.simps type_expr_to_cpp_prefix_suffix.simps
  function_type_expr_to_cpp_prefix_suffix.simps
  unary_modifier_type_expr_to_cpp_prefix_suffix.simps
  template_instantiation_to_cpp.simps class_member_access_to_cpp.simps
  variadic_type_expansion_to_cpp.simps constant_def_to_cpp.simps typedef_to_cpp.simps

section \<open>The C++ emitter for static asserts (ir0\_to\_cpp.py)\<close>

text \<open>
  The loop of \<open>static_assert_to_cpp\<close> over the enclosing parameters: the text written for
  the first parameter of kind \<open>BOOL\<close>, \<open>INT64\<close> or \<open>TYPE\<close>, if there is one.
\<close>

fun static_assert_guard_loop :: "TemplateArgDecl list \<Rightarrow> string \<Rightarrow> string \<Rightarrow> string option" where
  "static_assert_guard_loop [] cpp_meta_expr message = None"
| "static_assert_guard_loop (arg_decl # rest) cpp_meta_expr message =
     (if kind (decl_type arg_decl) = ExprKind_BOOL then
        Some (''static_assert(AlwaysTrueFromBool<'' @ decl_name arg_decl @ ''>::value && ''
                @ cpp_meta_expr @ '', '' @ [double_quote] @ message @ [double_quote] @ '');'')
      else if kind (decl_type arg_decl) = ExprKind_INT64 then
        Some (''static_assert(AlwaysTrueFromInt64<'' @ decl_name arg_decl @ ''>::value && ''
                @ cpp_meta_expr @ '', '' @ [double_quote] @ message @ [double_quote] @ '');'')
      else if kind (decl_type arg_decl) = ExprKind_TYPE then
        Some (''static_assert(AlwaysTrueFromType<'' @ decl_name arg_decl @ ''>::value && ''
                @ cpp_meta_expr @ '', '' @ [double_quote] @ message @ [double_quote] @ '');'')
      else static_assert_guard_loop rest cpp_meta_expr message)"

definition custom_always_true_text :: "string \<Rightarrow> string \<Rightarrow> string \<Rightarrow> string \<Rightarrow> string \<Rightarrow> string" where
  "custom_always_true_text template_param_decl always_true_id template_param cpp_meta_expr message =
     ''            // Custom AlwaysTrueFor* template\<newline>            template <'' @ template_param_decl @ ''>\<newline>            struct '' @ always_true_id @ '' {\<newline>              static constexpr bool value = true;\<newline>            };\<newline>            static_assert('' @ always_true_id @ ''<'' @ template_param @ ''>::value && '' @ cpp_meta_expr @ '', '' @ [double_quote] @ message @ [double_quote] @ '');\<newline>            ''"

text \<open>
  \<open>static_assert_to_cpp\<close>; \<open>expr\<close> and \<open>message\<close> are the fields of the \<open>StaticAssert\<close>.
  The set \<open>bound_variables\<close> only exists when there are enclosing parameters, and is only
  read in that case.
\<close>

definition static_assert_to_cpp ::
  "ir0_Expr \<Rightarrow> string \<Rightarrow> TemplateArgDecl list \<Rightarrow> writer \<Rightarrow> unit emit" where
  "static_assert_to_cpp expr message enclosing w =
     (case expr_to_cpp expr enclosing w of
        Inl e \<Rightarrow> Inl e
      | Inr (cpp_meta_expr, w1) \<Rightarrow>
          if enclosing = [] \<or> references_any_of expr (set (map decl_name enclosing)) then
            Inr ((), write_template_body_elem
                       (''static_assert('' @ cpp_meta_expr @ '', '' @ [double_quote] @ message
                          @ [double_quote] @ '');'') w1)
          else
            (case static_assert_guard_loop enclosing cpp_meta_expr message of
               Some text \<Rightarrow> Inr ((), write_template_body_elem text w1)
             | None \<Rightarrow>
                 (case new_id w1 of
                    (always_true_id, w2) \<Rightarrow>
                      Inr ((), write_template_body_elem
                                 (custom_always_true_text
                                    (type_to_template_param_declaration (decl_type (hd enclosing)))
                                    always_true_id (decl_name (hd enclosing)) cpp_meta_expr message)
                                 w2))))"

section \<open>IR-low template definitions and headers (ir0.py)\<close>

text \<open>
  The elements of a template body.  In the source \<open>TemplateDefn\<close> is itself a subclass of
  \<open>TemplateBodyElement\<close>; here \<open>ir0_TemplateDefnElement\<close> embeds it.  A
  \<open>TemplateSpecialization\<close> has \<open>args\<close>, the optional \<open>patterns\<close> and the \<open>body\<close>; a
  \<open>TemplateDefn\<close> has \<open>args\<close>, the optional \<open>main_definition\<close>, the \<open>specializations\<close>,
  \<open>name\<close>, \<open>description\<close> and \<open>result_element_names\<close>.
\<close>

datatype ir0_TemplateBodyElement =
    ir0_StaticAssert ir0_Expr string
  | ir0_ConstantDef string ir0_Expr
  | ir0_Typedef string ir0_Expr
  | ir0_TemplateDefnElement ir0_TemplateDefn
and ir0_TemplateSpecialization =
    ir0_TemplateSpecialization "TemplateArgDecl list" "ir0_Expr list option"
      "ir0_TemplateBodyElement list"
and ir0_TemplateDefn =
    ir0_TemplateDefn "TemplateArgDecl list" "ir0_TemplateSpecialization option"
      "ir0_TemplateSpecialization list" string string "string list"

record Header =
  template_defns :: "ir0_TemplateDefn list"
  toplevel_content :: "ir0_TemplateBodyElement list"
  public_names :: "string set"

section \<open>The transformation framework (transform\_ir0.py)\<close>

text \<open>
  The writers of the framework.  A \<open>ToplevelWriter\<close> owns the identifier generator, the
  lists \<open>template_defns\<close> and \<open>toplevel_elems\<close> and the two \<open>allow\<close> flags; a
  \<open>TemplateBodyWriter\<close> has the list \<open>elems\<close> and a top-level writer.  The state is the
  top-level writer together with the \<open>elems\<close> of the body writer in scope, if the writer in
  scope is a body writer.
\<close>

record transform_writer =
  tw_identifier_generator :: "nat \<Rightarrow> string"
  tw_identifiers_drawn :: nat
  tw_template_defns :: "ir0_TemplateDefn list"
  tw_toplevel_elems :: "ir0_TemplateBodyElement list"
  allow_toplevel_elems :: bool
  allow_template_defns :: bool
  tw_body_elems :: "ir0_TemplateBodyElement list option"

definition ToplevelWriter :: "(nat \<Rightarrow> string) \<Rightarrow> transform_writer" where
  "ToplevelWriter generator =
     \<lparr>tw_identifier_generator = generator, tw_identifiers_drawn = 0,
      tw_template_defns = [], tw_toplevel_elems = [],
      allow_toplevel_elems = True, allow_template_defns = True, tw_body_elems = None\<rparr>"

text \<open>\<open>ToplevelWriter.write\<close>, with its two assertions.\<close>

definition toplevel_write :: "ir0_TemplateBodyElement \<Rightarrow> transform_writer \<Rightarrow> error + transform_writer" where
  "toplevel_write elem w =
     (case elem of
        ir0_TemplateDefnElement template_defn \<Rightarrow>
          if \<not> allow_template_defns w then Inl AssertionError
          else Inr (w\<lparr>tw_template_defns := tw_template_defns w @ [template_defn]\<rparr>)
      | _ \<Rightarrow>
          if \<not> allow_toplevel_elems w then Inl AssertionError
          else Inr (w\<lparr>tw_toplevel_elems := tw_toplevel_elems w @ [elem]\<rparr>))"

text \<open>\<open>writer.write(elem)\<close> on the writer in scope.\<close>

definition writer_write :: "ir0_TemplateBodyElement \<Rightarrow> transform_writer \<Rightarrow> error + transform_writer" where
  "writer_write elem w =
     (case tw_body_elems w of
        Some elems \<Rightarrow> Inr (w\<lparr>tw_body_elems := Some (elems @ [elem])\<rparr>)
      | None \<Rightarrow> toplevel_write elem w)"

text \<open>
  A \<open>Transformation\<close> is a class whose methods subclasses override.  \<open>transform_header\<close>
  calls two of them, \<open>transform_template_defn\<close> and \<open>transform_toplevel_elem\<close>, on an
  element and the writer; whatever a subclass does in them (and in the methods they call)
  is a function from the element and the state of the writer to an exception or the new
  state of the writer.
\<close>

record Transformation =
  transform_template_defn :: "ir0_TemplateDefn \<Rightarrow> transform_writer \<Rightarrow> error + transform_writer"
  transform_toplevel_elem :: "ir0_TemplateBodyElement \<Rightarrow> transform_writer \<Rightarrow> error + transform_writer"

fun transform_each :: "('a \<Rightarrow> transform_writer \<Rightarrow> error + transform_writer) \<Rightarrow> 'a list
    \<Rightarrow> transform_writer \<Rightarrow> error + transform_writer" where
  "transform_each f [] w = Inr w"
| "transform_each f (x # xs) w =
     (case f x w of
        Inl e \<Rightarrow> Inl e
      | Inr w1 \<Rightarrow> transform_each f xs w1)"

definition transform_header :: "Transformation \<Rightarrow> Header \<Rightarrow> (nat \<Rightarrow> string) \<Rightarrow> error + Header" where
  "transform_header self header generator =
     (case transform_each (transform_template_defn self) (template_defns header)
             (ToplevelWriter generator) of
        Inl e \<Rightarrow> Inl e
      | Inr w1 \<Rightarrow>
          (case transform_each (transform_toplevel_elem self) (toplevel_content header) w1 of
             Inl e \<Rightarrow> Inl e
           | Inr w2 \<Rightarrow>
               Inr \<lparr>template_defns = tw_template_defns w2,
                    toplevel_content = tw_toplevel_elems w2,
                    public_names = public_names header\<rparr>))"

subsection \<open>The constructors of the statements (ir0.py)\<close>

text \<open>
  The constructors of ir0.py check their arguments with assertions.  \<open>StaticAssert\<close>
  requires an expression of type \<open>BoolType\<close>, \<open>ConstantDef\<close> one of type \<open>BoolType\<close> or
  \<open>Int64Type\<close>, \<open>Typedef\<close> one of type \<open>TypeType\<close> or \<open>TemplateType\<close>.  \<open>TemplateDefn\<close>
  requires a main definition or a non-empty list of specializations, a main definition
  without patterns and a description without newline, and it stores the result element
  names sorted.  \<open>TemplateSpecialization\<close> and \<open>Header\<close> check nothing.
\<close>

definition StaticAssert_init :: "ir0_Expr \<Rightarrow> string \<Rightarrow> error + ir0_TemplateBodyElement" where
  "StaticAssert_init expr message =
     (if ir0_type expr \<noteq> ir0_BoolType then Inl AssertionError
      else Inr (ir0_StaticAssert expr message))"

definition ConstantDef_init :: "string \<Rightarrow> ir0_Expr \<Rightarrow> error + ir0_TemplateBodyElement" where
  "ConstantDef_init name expr =
     (if ir0_type expr \<noteq> ir0_BoolType \<and> ir0_type expr \<noteq> ir0_Int64Type then Inl AssertionError
      else Inr (ir0_ConstantDef name expr))"

definition Typedef_init :: "string \<Rightarrow> ir0_Expr \<Rightarrow> error + ir0_TemplateBodyElement" where
  "Typedef_init name expr =
     (case ir0_type expr of
        ir0_TypeType \<Rightarrow> Inr (ir0_Typedef name expr)
      | ir0_TemplateType _ \<Rightarrow> Inr (ir0_Typedef name expr)
      | _ \<Rightarrow> Inl AssertionError)"

definition specialization_patterns :: "ir0_TemplateSpecialization \<Rightarrow> ir0_Expr list option" where
  "specialization_patterns specialization =
     (case specialization of ir0_TemplateSpecialization _ patterns _ \<Rightarrow> patterns)"

definition TemplateDefn_init ::
  "TemplateArgDecl list \<Rightarrow> ir0_TemplateSpecialization option \<Rightarrow> ir0_TemplateSpecialization list
     \<Rightarrow> string \<Rightarrow> string \<Rightarrow> string list \<Rightarrow> error + ir0_TemplateDefn" where
  "TemplateDefn_init args main_defn specializations name description result_element_names =
     (if main_defn = None \<and> specializations = [] then Inl AssertionError
      else if (case main_defn of
                 None \<Rightarrow> False
               | Some specialization \<Rightarrow> specialization_patterns specialization \<noteq> None)
        then Inl AssertionError
      else if newline \<in> set description then Inl AssertionError
      else Inr (ir0_TemplateDefn args main_defn specializations name description
                  (sort result_element_names)))"

subsection \<open>The methods of the base class\<close>

text \<open>
  The expression methods of the base class rebuild each node from its transformed children
  and do not write; \<open>transform_expr\<close> is their composition.  Every node is rebuilt from
  fields equal to its own, so the assertions of its constructor, which held when the node
  was built, hold again.
\<close>

fun transform_expr :: "ir0_Expr \<Rightarrow> ir0_Expr" where
  "transform_expr (ir0_Literal v) = ir0_Literal v"
| "transform_expr (ir0_AtomicTypeLiteral cpp_type is_local may_return_error t) =
     ir0_AtomicTypeLiteral cpp_type is_local may_return_error t"
| "transform_expr (ir0_ClassMemberAccess e member_name member_type) =
     ir0_ClassMemberAccess (transform_expr e) member_name member_type"
| "transform_expr (ir0_NotExpr e) = ir0_NotExpr (transform_expr e)"
| "transform_expr (ir0_UnaryMinusExpr e) = ir0_UnaryMinusExpr (transform_expr e)"
| "transform_expr (ir0_ComparisonExpr lhs rhs op) =
     ir0_ComparisonExpr (transform_expr lhs) (transform_expr rhs) op"
| "transform_expr (ir0_Int64BinaryOpExpr lhs rhs op) =
     ir0_Int64BinaryOpExpr (transform_expr lhs) (transform_expr rhs) op"
| "transform_expr (ir0_TemplateInstantiation template_expr args flag) =
     ir0_TemplateInstantiation (transform_expr template_expr) (map transform_expr args) flag"
| "transform_expr (ir0_PointerTypeExpr e) = ir0_PointerTypeExpr (transform_expr e)"
| "transform_expr (ir0_ReferenceTypeExpr e) = ir0_ReferenceTypeExpr (transform_expr e)"
| "transform_expr (ir0_RvalueReferenceTypeExpr e) = ir0_RvalueReferenceTypeExpr (transform_expr e)"
| "transform_expr (ir0_ConstTypeExpr e) = ir0_ConstTypeExpr (transform_expr e)"
| "transform_expr (ir0_ArrayTypeExpr e) = ir0_ArrayTypeExpr (transform_expr e)"
| "transform_expr (ir0_FunctionTypeExpr return_type_expr arg_exprs) =
     ir0_FunctionTypeExpr (transform_expr return_type_expr) (map transform_expr arg_exprs)"
| "transform_expr (ir0_VariadicTypeExpansion e) = ir0_VariadicTypeExpansion (transform_expr e)"

definition transform_template_arg_decl :: "TemplateArgDecl \<Rightarrow> TemplateArgDecl" where
  "transform_template_arg_decl arg_decl = arg_decl"

text \<open>
  The statement methods of the base class.  A body is transformed with a new
  \<open>TemplateBodyWriter\<close> on the top-level writer; its \<open>elems\<close> are the new body.
\<close>

definition transform_static_assert :: "ir0_Expr \<Rightarrow> string \<Rightarrow> transform_writer \<Rightarrow> error + transform_writer" where
  "transform_static_assert expr message w =
     (case StaticAssert_init (transform_expr expr) message of
        Inl e \<Rightarrow> Inl e
      | Inr elem \<Rightarrow> writer_write elem w)"

definition transform_constant_def :: "string \<Rightarrow> ir0_Expr \<Rightarrow> transform_writer \<Rightarrow> error + transform_writer" where
  "transform_constant_def name expr w =
     (case ConstantDef_init name (transform_expr expr) of
        Inl e \<Rightarrow> Inl e
      | Inr elem \<Rightarrow> writer_write elem w)"

definition transform_typedef :: "string \<Rightarrow> ir0_Expr \<Rightarrow> transform_writer \<Rightarrow> error + transform_writer" where
  "transform_typedef name expr w =
     (case Typedef_init name (transform_expr expr) of
        Inl e \<Rightarrow> Inl e
      | Inr elem \<Rightarrow> writer_write elem w)"

fun base_transform_template_defn :: "ir0_TemplateDefn \<Rightarrow> transform_writer \<Rightarrow> error + transform_writer"
  and base_transform_template_specialization ::
    "ir0_TemplateSpecialization \<Rightarrow> transform_writer \<Rightarrow> error + (ir0_TemplateSpecialization \<times> transform_writer)"
  and base_transform_template_specializations ::
    "ir0_TemplateSpecialization list \<Rightarrow> transform_writer
       \<Rightarrow> error + (ir0_TemplateSpecialization list \<times> transform_writer)"
  and base_transform_template_body_elems ::
    "ir0_TemplateBodyElement list \<Rightarrow> transform_writer \<Rightarrow> error + transform_writer"
  and base_transform_template_body_elem ::
    "ir0_TemplateBodyElement \<Rightarrow> transform_writer \<Rightarrow> error + transform_writer"
where
  "base_transform_template_defn
       (ir0_TemplateDefn args main_defn specializations name description result_element_names) w =
     (case (case main_defn of
              None \<Rightarrow> Inr (None, w)
            | Some specialization \<Rightarrow>
                (case base_transform_template_specialization specialization w of
                   Inl e \<Rightarrow> Inl e
                 | Inr (s, w1) \<Rightarrow> Inr (Some s, w1))) of
        Inl e \<Rightarrow> Inl e
      | Inr (main_defn', w1) \<Rightarrow>
          (case base_transform_template_specializations specializations w1 of
             Inl e \<Rightarrow> Inl e
           | Inr (specializations', w2) \<Rightarrow>
               (case TemplateDefn_init (map transform_template_arg_decl args) main_defn'
                       specializations' name description result_element_names of
                  Inl e \<Rightarrow> Inl e
                | Inr template_defn \<Rightarrow> writer_write (ir0_TemplateDefnElement template_defn) w2)))"
| "base_transform_template_specialization (ir0_TemplateSpecialization args patterns body) w =
     (case base_transform_template_body_elems body (w\<lparr>tw_body_elems := Some []\<rparr>) of
        Inl e \<Rightarrow> Inl e
      | Inr w1 \<Rightarrow>
          Inr (ir0_TemplateSpecialization (map transform_template_arg_decl args)
                 (map_option (map transform_expr) patterns)
                 (case tw_body_elems w1 of None \<Rightarrow> [] | Some elems \<Rightarrow> elems),
               w1\<lparr>tw_body_elems := tw_body_elems w\<rparr>))"
| "base_transform_template_specializations [] w = Inr ([], w)"
| "base_transform_template_specializations (specialization # rest) w =
     (case base_transform_template_specialization specialization w of
        Inl e \<Rightarrow> Inl e
      | Inr (s, w1) \<Rightarrow>
          (case base_transform_template_specializations rest w1 of
             Inl e \<Rightarrow> Inl e
           | Inr (ss, w2) \<Rightarrow> Inr (s # ss, w2)))"
| "base_transform_template_body_elems [] w = Inr w"
| "base_transform_template_body_elems (elem # rest) w =
     (case base_transform_template_body_elem elem w of
        Inl e \<Rightarrow> Inl e
      | Inr w1 \<Rightarrow> base_transform_template_body_elems rest w1)"
| "base_transform_template_body_elem (ir0_TemplateDefnElement template_defn) w =
     base_transform_template_defn template_defn w"
| "base_transform_template_body_elem (ir0_StaticAssert expr message) w =
     transform_static_assert expr message w"
| "base_transform_template_body_elem (ir0_ConstantDef name expr) w =
     transform_constant_def name expr w"
| "base_transform_template_body_elem (ir0_Typedef name expr) w = transform_typedef name expr w"

definition base_transform_toplevel_elem ::
  "ir0_TemplateBodyElement \<Rightarrow> transform_writer \<Rightarrow> error + transform_writer" where
  "base_transform_toplevel_elem elem w =
     (case elem of
        ir0_StaticAssert expr message \<Rightarrow> transform_static_assert expr message w
      | ir0_ConstantDef name expr \<Rightarrow> transform_constant_def name expr w
      | ir0_Typedef name expr \<Rightarrow> transform_typedef name expr w
      | ir0_TemplateDefnElement _ \<Rightarrow>
          Inl (NotImplementedError ''Unexpected elem: TemplateDefn'' []))"

definition base_Transformation :: Transformation where
  "base_Transformation =
     \<lparr>transform_template_defn = base_transform_template_defn,
      transform_toplevel_elem = base_transform_toplevel_elem\<rparr>"

section \<open>A small elaborator for the closed examples\<close>

text \<open>
  The examples below need one concrete elaborator.  \<open>sample_elab\<close> elaborates variable
  references (looked up in the context, refused when only partially defined, then passed to
  the callback, as \<open>var_reference_ast_to_ir3\<close> does), integer literals and \<open>Type('...')\<close>
  literals, and rejects everything else.
\<close>

datatype sample_expr =
    Sample_VarReference ir3_ExprType string
  | Sample_IntLiteral int
  | Sample_AtomicTypeLiteral string

fun sample_expr_type :: "sample_expr \<Rightarrow> ir3_ExprType" where
  "sample_expr_type (Sample_VarReference t _) = t"
| "sample_expr_type (Sample_IntLiteral _) = ir3_IntType"
| "sample_expr_type (Sample_AtomicTypeLiteral _) = ir3_TypeType"


fun sample_var_name :: "sample_expr \<Rightarrow> string option" where
  "sample_var_name (Sample_VarReference _ x) = Some x"
| "sample_var_name _ = None"

fun sample_elab :: "sample_expr elaborator" where
  "sample_elab (ast_Name x) ctx in_match_pattern check_var_reference =
     (case get_symbol_definition (ctx_symbol_table ctx) x of
        None \<Rightarrow> Inl (CompilationError ''Reference to undefined variable/function'' [])
      | Some r \<Rightarrow>
          if is_only_partially_defined r then
            Inl (CompilationError ''Reference to a variable that may or may not have been initialized (depending on which branch was taken)'' [])
          else (case check_var_reference x of
                  Some e \<Rightarrow> Inl e
                | None \<Rightarrow> Inr (Sample_VarReference (symbol_type (symbol r)) x)))"
| "sample_elab (ast_Num (PyInt i)) ctx in_match_pattern check_var_reference = Inr (Sample_IntLiteral i)"
| "sample_elab (ast_Call (ast_Name f) [ast_Str s] []) ctx in_match_pattern check_var_reference =
     (if f = ''Type'' then Inr (Sample_AtomicTypeLiteral s)
      else Inl (CompilationError ''This kind of expression is not supported.'' []))"
| "sample_elab _ ctx in_match_pattern check_var_reference =
     Inl (CompilationError ''This kind of expression is not supported.'' [])"

definition sample_context :: "(string \<times> ir3_ExprType) list \<Rightarrow> CompilationContext" where
  "sample_context vars =
     \<lparr>ctx_symbol_table =
        SymbolTable
          (map_of (map (\<lambda>(x, t). (x, (\<lparr>symbol_type = t, symbol_name = x,
                                          is_function_that_may_throw = False\<rparr>,
                                       ast_Name x, False))) vars))
          None,
      custom_types_symbol_table = SymbolTable Map.empty None,
      partially_typechecked_function_definitions_by_name = Map.empty,
      filename = ''test.py'',
      source_lines = [''line 1'', ''line 2''],
      current_function_name = Some ''f''\<rparr>"


section \<open>Notions used in the statements\<close>

subsection \<open>Front end\<close>

text \<open>
  The escaping of an assert message with each of the three replacements effective: a
  backslash becomes two, a double quote becomes a backslash and a double quote, a newline
  becomes a backslash and the letter n.
\<close>

definition claimed_escape_message :: "string \<Rightarrow> string" where
  "claimed_escape_message message =
     str_replace newline [backslash, CHR ''n'']
       (str_replace double_quote [backslash, double_quote]
          (str_replace backslash [backslash, backslash] message))"






subsection \<open>Back end\<close>

text \<open>
  A chain of reference constructors around \<open>inner\<close>, outermost first: \<open>True\<close> is a
  \<open>ReferenceTypeExpr\<close> link, \<open>False\<close> an \<open>RvalueReferenceTypeExpr\<close> link.
\<close>

fun reference_chain :: "bool list \<Rightarrow> ir0_Expr \<Rightarrow> ir0_Expr" where
  "reference_chain [] inner = inner"
| "reference_chain (is_lvalue_reference # links) inner =
     (if is_lvalue_reference then ir0_ReferenceTypeExpr (reference_chain links inner)
      else ir0_RvalueReferenceTypeExpr (reference_chain links inner))"

text \<open>A writer inside a template body that has written nothing; its identifiers are X0, X1, ...\<close>

definition example_writer :: writer where
  "example_writer =
     \<lparr>identifier_generator = (\<lambda>n. ''X'' @ string_of_nat n), identifiers_drawn = 0,
      toplevel_strings = [], template_body_strings = Some []\<rparr>"

text \<open>
  The enclosing parameters that a predefined \<open>AlwaysTrueFrom*\<close> template accepts, and the
  name of the template for the kind of the parameter.
\<close>

definition always_true_guard_name :: "ir0_ExprKind \<Rightarrow> string" where
  "always_true_guard_name k =
     (case k of
        ExprKind_BOOL \<Rightarrow> ''AlwaysTrueFromBool''
      | ExprKind_INT64 \<Rightarrow> ''AlwaysTrueFromInt64''
      | ExprKind_TYPE \<Rightarrow> ''AlwaysTrueFromType''
      | _ \<Rightarrow> [])"

definition has_predefined_guard :: "TemplateArgDecl \<Rightarrow> bool" where
  "has_predefined_guard arg_decl =
     (kind (decl_type arg_decl) = ExprKind_BOOL \<or> kind (decl_type arg_decl) = ExprKind_INT64
      \<or> kind (decl_type arg_decl) = ExprKind_TYPE)"

text \<open>The nine \<open>Select1st*\<close> templates of the family \<open>Select1st{Bool,Int64,Type}{Bool,Int64,Type}\<close>.\<close>

definition predefined_select1st_names :: "string list" where
  "predefined_select1st_names =
     [''Select1stBoolBool'', ''Select1stBoolInt64'', ''Select1stBoolType'',
      ''Select1stInt64Bool'', ''Select1stInt64Int64'', ''Select1stInt64Type'',
      ''Select1stTypeBool'', ''Select1stTypeInt64'', ''Select1stTypeType'']"

text \<open>
  The name \<open>Select1stXY\<close> for two kinds, a variadic type counting as \<open>Type\<close>; no name is
  predefined for the kind \<open>TEMPLATE\<close>.
\<close>

definition kind_word :: "ir0_ExprKind \<Rightarrow> string option" where
  "kind_word k =
     (case k of
        ExprKind_BOOL \<Rightarrow> Some ''Bool''
      | ExprKind_INT64 \<Rightarrow> Some ''Int64''
      | ExprKind_TYPE \<Rightarrow> Some ''Type''
      | ExprKind_VARIADIC_TYPE \<Rightarrow> Some ''Type''
      | ExprKind_TEMPLATE \<Rightarrow> None)"

definition claimed_select1st_name :: "ir0_ExprKind \<Rightarrow> ir0_ExprKind \<Rightarrow> string option" where
  "claimed_select1st_name k1 k2 =
     (case (kind_word k1, kind_word k2) of
        (Some x, Some y) \<Rightarrow> Some (''Select1st'' @ x @ y)
      | _ \<Rightarrow> None)"

section \<open>Results\<close>

subsection \<open>C4: integer, floating-point and complex literals\<close>

text \<open>
  C4 (as stated) fails at the end point \<open>2^63 - 1\<close>: the literal is accepted although the
  value is not strictly inside the interval \<open>[-(2^63-1), 2^63-1]\<close>.
\<close>

theorem C4_counterexample:
  "number_literal_expression_ast_to_ir3 (PyInt (2 ^ 63 - 1)) True = Inr (ir3_IntLiteral (2 ^ 63 - 1))
   \<and> \<not> (- (2 ^ 63 - 1) < literal_denotation (2 ^ 63 - 1) True
        \<and> literal_denotation (2 ^ 63 - 1) True < 2 ^ 63 - 1)"
  by (simp add: number_literal_expression_ast_to_ir3_def literal_denotation_def)

text \<open>
  C4 (amended): an integer literal elaborates to an \<open>IntLiteral\<close> carrying its value exactly
  when the value lies in the closed interval \<open>[-(2^63-1), 2^63-1]\<close>, end points included, and
  raises a \<open>CompilationError\<close> otherwise; every floating-point and every complex literal
  raises a \<open>CompilationError\<close>.
\<close>

theorem C4_number_literal:
  "(number_literal_expression_ast_to_ir3 (PyInt i) positive = Inr (ir3_IntLiteral (literal_denotation i positive))
      \<longleftrightarrow> - (2 ^ 63 - 1) \<le> literal_denotation i positive \<and> literal_denotation i positive \<le> 2 ^ 63 - 1)
   \<and> (\<not> (- (2 ^ 63 - 1) \<le> literal_denotation i positive \<and> literal_denotation i positive \<le> 2 ^ 63 - 1)
      \<longrightarrow> is_CompilationError (number_literal_expression_ast_to_ir3 (PyInt i) positive))
   \<and> is_CompilationError (number_literal_expression_ast_to_ir3 (PyFloat m e) positive)
   \<and> is_CompilationError (number_literal_expression_ast_to_ir3 (PyComplex re im) positive)"
  by (auto simp: number_literal_expression_ast_to_ir3_def literal_denotation_def
      is_CompilationError_def Let_def)

theorem C4_number_literal_witness:
  "number_literal_expression_ast_to_ir3 (PyInt 5) False = Inr (ir3_IntLiteral (- 5))
   \<and> is_CompilationError (number_literal_expression_ast_to_ir3 (PyInt (2 ^ 63)) True)"
  using C4_number_literal [of 5 False 0 0 0 0] C4_number_literal [of "2 ^ 63" True 0 0 0 0]
  by (simp add: literal_denotation_def)

subsection \<open>C6: equality and inequality comparisons\<close>

lemma all_structural_equality_check_supported_iff:
  "all_structural_equality_check_supported args = Inr True
     \<longleftrightarrow> (\<forall>a \<in> set args. is_structural_equality_check_supported_for_arg a = Inr True)"
  by (induction args) (auto split: sum.splits)

text \<open>
  C6 (as stated) fails for a list of sets: \<open>List[Set[Int]]\<close> is a list of a supported element
  type (a set of a structurally supported element type), yet the comparison is rejected.
\<close>

theorem C6_counterexample:
  "claimed_equality_supported (ir3_ListType (ir3_SetType ir3_IntType))
   \<and> eq_ast_to_ir3 sample_elab sample_expr_type (ast_Name ''x'') (ast_Name ''x'')
        (sample_context [(''x'', ir3_ListType (ir3_SetType ir3_IntType))]) False no_check
      = Inl (CompilationError ''Type not supported in equality comparison: %s''
               [TypeArg (ir3_ListType (ir3_SetType ir3_IntType))])"
  by (simp add: eq_ast_to_ir3_def sample_context_def no_check_def)

text \<open>
  C6 (amended): a comparison \<open>==\<close> or \<open>!=\<close> between two expressions of the same IR-high type
  elaborates successfully if and only if the type is supported for equality, where \<open>Bool\<close>,
  \<open>Int\<close> and \<open>TypeRef\<close> are supported; a \<open>List\<close> is supported exactly when its element type
  is structural-equality-supported (so a list of sets is not); a \<open>Set\<close> is supported exactly
  when its element type is structural-equality-supported (no set is structurally supported,
  so sets of sets are not); a \<open>Custom\<close> type is supported exactly when every field type is
  structural-equality-supported; and function types are never supported.
\<close>

theorem C6_equality_supported:
  assumes "elab lhs_node ctx False cvr = Inr lhs" and "elab rhs_node ctx False cvr = Inr rhs"
    and "expr_type lhs = expr_type rhs"
  shows "(eq_ast_to_ir3 elab expr_type lhs_node rhs_node ctx False cvr
            = Inr (ir3_EqualityComparison lhs rhs)
            \<longleftrightarrow> is_equality_check_supported_for_type (expr_type lhs) = Inr True)
    \<and> ((\<exists>r. eq_ast_to_ir3 elab expr_type lhs_node rhs_node ctx False cvr = Inr r)
            \<longleftrightarrow> is_equality_check_supported_for_type (expr_type lhs) = Inr True)
    \<and> (not_eq_ast_to_ir3 elab expr_type lhs_node rhs_node ctx False cvr
            = Inr (ir3_NotExpr (ir3_EqualityComparison lhs rhs))
            \<longleftrightarrow> is_equality_check_supported_for_type (expr_type lhs) = Inr True)
    \<and> ((\<exists>r. not_eq_ast_to_ir3 elab expr_type lhs_node rhs_node ctx False cvr = Inr r)
            \<longleftrightarrow> is_equality_check_supported_for_type (expr_type lhs) = Inr True)
    \<and> is_equality_check_supported_for_type ir3_BoolType = Inr True
    \<and> is_equality_check_supported_for_type ir3_IntType = Inr True
    \<and> is_equality_check_supported_for_type ir3_TypeType = Inr True
    \<and> (is_equality_check_supported_for_type (ir3_ListType t) = Inr True
            \<longleftrightarrow> is_structural_equality_check_supported_for_type t = Inr True)
    \<and> (is_equality_check_supported_for_type (ir3_SetType t) = Inr True
            \<longleftrightarrow> is_structural_equality_check_supported_for_type t = Inr True)
    \<and> is_structural_equality_check_supported_for_type (ir3_SetType t) = Inr False
    \<and> (is_equality_check_supported_for_type (ir3_CustomType name arg_types is_exc msg) = Inr True
            \<longleftrightarrow> (\<forall>a \<in> set arg_types.
                   is_structural_equality_check_supported_for_arg a = Inr True))
    \<and> is_equality_check_supported_for_type (ir3_FunctionType argtypes ret) = Inr False"
  using assms
  by (auto simp: eq_ast_to_ir3_def not_eq_ast_to_ir3_def
      all_structural_equality_check_supported_iff split: sum.splits)

theorem C6_equality_supported_witness:
  "eq_ast_to_ir3 sample_elab sample_expr_type (ast_Name ''x'') (ast_Name ''y'')
       (sample_context [(''x'', ir3_SetType ir3_IntType), (''y'', ir3_SetType ir3_IntType)])
       False no_check
     = Inr (ir3_EqualityComparison (Sample_VarReference (ir3_SetType ir3_IntType) ''x'')
                                   (Sample_VarReference (ir3_SetType ir3_IntType) ''y''))
   \<and> (\<nexists>r. not_eq_ast_to_ir3 sample_elab sample_expr_type (ast_Name ''x'') (ast_Name ''x'')
          (sample_context [(''x'', ir3_SetType (ir3_SetType ir3_IntType))]) False no_check = Inr r)"
proof -
  let ?c1 = "sample_context [(''x'', ir3_SetType ir3_IntType), (''y'', ir3_SetType ir3_IntType)]"
  let ?c2 = "sample_context [(''x'', ir3_SetType (ir3_SetType ir3_IntType))]"
  have x1: "sample_elab (ast_Name ''x'') ?c1 False no_check
              = Inr (Sample_VarReference (ir3_SetType ir3_IntType) ''x'')"
    by (simp add: sample_context_def no_check_def)
  have y1: "sample_elab (ast_Name ''y'') ?c1 False no_check
              = Inr (Sample_VarReference (ir3_SetType ir3_IntType) ''y'')"
    by (simp add: sample_context_def no_check_def)
  have x2: "sample_elab (ast_Name ''x'') ?c2 False no_check
              = Inr (Sample_VarReference (ir3_SetType (ir3_SetType ir3_IntType)) ''x'')"
    by (simp add: sample_context_def no_check_def)
  show ?thesis
    using C6_equality_supported [where elab = sample_elab and expr_type = sample_expr_type
        and lhs_node = "ast_Name ''x''" and rhs_node = "ast_Name ''y''" and ctx = ?c1
        and cvr = no_check, OF x1 y1]
      C6_equality_supported [where elab = sample_elab and expr_type = sample_expr_type
        and lhs_node = "ast_Name ''x''" and rhs_node = "ast_Name ''x''" and ctx = ?c2
        and cvr = no_check, OF x2 x2]
    by simp
qed


subsection \<open>C10: list displays without elements\<close>

lemma elaborate_each_length:
  "elaborate_each elab ns ctx imp cvr = Inr xs \<Longrightarrow> length xs = length ns"
  by (induction ns arbitrary: xs) (auto split: sum.splits)

lemma check_list_elem_types_message:
  "check_list_elem_types expr_type t xs \<noteq> Some (CompilationError untyped_empty_list_message args)"
  by (induction xs) (auto simp: untyped_empty_list_message_def)

text \<open>
  C10: elaborating a list display with zero elements raises the \<open>CompilationError\<close> that
  directs the user to \<open>empty_list\<close>, in every compilation context.  A non-empty display
  never takes this path: either the elaboration of an element raises (and that exception is
  the result), or the result is not this error.
\<close>

theorem C10_empty_list_display:
  "list_expression_ast_to_ir3 elab expr_type [] ctx imp cvr
     = Inl (CompilationError untyped_empty_list_message [])
   \<and> (elts \<noteq> [] \<longrightarrow>
        (case elaborate_each elab elts ctx imp cvr of
           Inl e \<Rightarrow> list_expression_ast_to_ir3 elab expr_type elts ctx imp cvr = Inl e
         | Inr elem_exprs \<Rightarrow>
             list_expression_ast_to_ir3 elab expr_type elts ctx imp cvr
               \<noteq> Inl (CompilationError untyped_empty_list_message [])))"
proof -
  have empty: "list_expression_ast_to_ir3 elab expr_type [] ctx imp cvr
                 = Inl (CompilationError untyped_empty_list_message [])"
    by (simp add: list_expression_ast_to_ir3_def)
  have nonempty: "list_expression_ast_to_ir3 elab expr_type elts ctx imp cvr
                    \<noteq> Inl (CompilationError untyped_empty_list_message [])"
    if "elts \<noteq> []" and ok: "elaborate_each elab elts ctx imp cvr = Inr elem_exprs" for elem_exprs
  proof -
    from elaborate_each_length [OF ok] that(1) obtain first rest where "elem_exprs = first # rest"
      by (cases elem_exprs) auto
    then show ?thesis
      using ok check_list_elem_types_message [of expr_type "expr_type first" elem_exprs "[]"]
      by (auto simp: list_expression_ast_to_ir3_def Let_def split: option.splits)
  qed
  show ?thesis
    using empty nonempty
    by (auto simp: list_expression_ast_to_ir3_def split: sum.splits)
qed

theorem C10_empty_list_display_witness:
  "list_expression_ast_to_ir3 sample_elab sample_expr_type [ast_Num (PyInt 1), ast_Num (PyInt 2)]
       (sample_context []) False no_check
     \<noteq> Inl (CompilationError untyped_empty_list_message [])
   \<and> list_expression_ast_to_ir3 sample_elab sample_expr_type [ast_Num (PyInt 1), ast_Num (PyInt 2)]
       (sample_context []) False no_check
     = Inr (ir3_ListExpr ir3_IntType [Sample_IntLiteral 1, Sample_IntLiteral 2])"
  using C10_empty_list_display [of sample_elab sample_expr_type "sample_context []" False no_check
      "[ast_Num (PyInt 1), ast_Num (PyInt 2)]"]
  by (simp add: list_expression_ast_to_ir3_def)

subsection \<open>C5: the message of an assert\<close>

text \<open>
  C5: for the statement \<open>assert x, 'a"b'\<close> on line 1 of \<open>test.py\<close> (\<open>x\<close> a Bool), the
  elaborated message escapes the newline of the composed text and leaves the double quote of
  the message as it is; the message with the double quote escaped is a different string.
\<close>

theorem C5_double_quote_not_escaped:
  "assert_ast_to_ir3 sample_elab sample_expr_type (ast_Name ''x'')
       (Some (ast_Str (''a'' @ [double_quote] @ ''b''))) 1 (sample_context [(''x'', ir3_BoolType)])
     = Inr (ir3_Assert (Sample_VarReference ir3_BoolType ''x'')
              (''TMPPy assertion failed: a'' @ [double_quote] @ ''b'' @ [backslash, CHR ''n'']
                 @ ''test.py:1: line 1''))
   \<and> claimed_escape_message
         (assertion_failed_text (''a'' @ [double_quote] @ ''b'') ''test.py'' 1 ''line 1'')
     = ''TMPPy assertion failed: a'' @ [backslash, double_quote] @ ''b'' @ [backslash, CHR ''n'']
         @ ''test.py:1: line 1''
   \<and> ''TMPPy assertion failed: a'' @ [double_quote] @ ''b'' @ [backslash, CHR ''n'']
         @ ''test.py:1: line 1''
     \<noteq> ''TMPPy assertion failed: a'' @ [backslash, double_quote] @ ''b'' @ [backslash, CHR ''n'']
         @ ''test.py:1: line 1''"
  by (simp add: assert_ast_to_ir3_def sample_context_def no_check_def assert_message_literal_def
      py_index_def escape_message_def claimed_escape_message_def assertion_failed_text_def
      str_replace_def str_int_def string_of_nat.simps backslash_def double_quote_def newline_def)

subsection \<open>C8: lambda arguments of a match that no pattern uses\<close>








subsection \<open>C3: joining the definitions of two branches\<close>
















subsection \<open>C7: chains of reference constructors\<close>

lemma simplify_loop_reference_chain:
  "\<not> is_reference_chain inner \<Longrightarrow>
     simplify_loop has_reference (reference_chain links inner)
       = (has_reference \<or> True \<in> set links, inner)"
proof (induction links arbitrary: has_reference)
  case Nil
  then show ?case by (cases inner) simp_all
next
  case (Cons l links)
  then show ?case by auto
qed

lemma simplify_toplevel_references_chain:
  assumes "\<not> is_reference_chain inner"
  shows "simplify_toplevel_references (reference_chain links inner)
         = (if True \<in> set links then ir0_ReferenceTypeExpr inner
            else ir0_RvalueReferenceTypeExpr inner)"
  by (simp add: simplify_toplevel_references_def simplify_loop_reference_chain [OF assms])

lemma is_reference_chain_reference_chain:
  "links \<noteq> [] \<Longrightarrow> is_reference_chain (reference_chain links inner)"
  by (cases links) auto

text \<open>
  C7: a non-empty chain of reference and rvalue-reference constructors around an inner type
  expression that is not itself a reference is emitted as one modifier on the inner
  expression: \<open>&\<close> if some link of the chain is a reference, \<open>&&\<close> otherwise.  The prefix and
  suffix of the chain are those the emitter computes for the inner expression under that one
  modifier, and the emitted type is the prefix, the modifier and the suffix of the inner
  expression.
\<close>

theorem C7_reference_collapsing:
  assumes "links \<noteq> []" and "\<not> is_reference_chain inner"
  shows "type_expr_to_cpp_prefix_suffix (reference_chain links inner) enclosing has_modifiers w
           = unary_modifier_type_expr_to_cpp_prefix_suffix
               (if True \<in> set links then '' &'' else '' &&'') inner enclosing w
    \<and> type_expr_to_cpp (reference_chain links inner) enclosing w
           = (case type_expr_to_cpp_prefix_suffix inner enclosing True w of
                Inl e \<Rightarrow> Inl e
              | Inr ((prefix, write_suffix), w1) \<Rightarrow>
                  (case write_suffix w1 of
                     Inl e \<Rightarrow> Inl e
                   | Inr (suffix, w2) \<Rightarrow>
                       Inr (prefix @ (if True \<in> set links then '' &'' else '' &&'') @ suffix, w2)))"
proof -
  have ps: "type_expr_to_cpp_prefix_suffix (reference_chain links inner) enclosing m w
           = unary_modifier_type_expr_to_cpp_prefix_suffix
               (if True \<in> set links then '' &'' else '' &&'') inner enclosing w" for m
    by (subst type_expr_to_cpp_prefix_suffix.simps)
      (simp add: is_reference_chain_reference_chain [OF assms(1)]
        simplify_toplevel_references_chain [OF assms(2)])
  show ?thesis
    by (simp add: ps type_expr_to_cpp.simps unary_modifier_type_expr_to_cpp_prefix_suffix.simps
        split: sum.splits prod.splits)
qed

text \<open>
  The two examples of the specification: \<open>ref(ref(rref(T)))\<close> is emitted as \<open>T &\<close> and
  \<open>rref(rref(T))\<close> as \<open>T &&\<close>.
\<close>

theorem C7_reference_collapsing_witness:
  "type_expr_to_cpp
     (ir0_ReferenceTypeExpr (ir0_ReferenceTypeExpr (ir0_RvalueReferenceTypeExpr
        (ir0_AtomicTypeLiteral ''T'' False False ir0_TypeType)))) [] example_writer
     = Inr (''T &'', example_writer)
   \<and> type_expr_to_cpp
     (ir0_RvalueReferenceTypeExpr (ir0_RvalueReferenceTypeExpr
        (ir0_AtomicTypeLiteral ''T'' False False ir0_TypeType))) [] example_writer
     = Inr (''T &&'', example_writer)"
proof -
  let ?T = "ir0_AtomicTypeLiteral ''T'' False False ir0_TypeType"
  have T: "type_expr_to_cpp_prefix_suffix ?T [] True example_writer
             = Inr ((''T'', no_suffix), example_writer)"
    by (simp add: type_expr_to_cpp_prefix_suffix.simps atomic_type_literal_expr_to_cpp_def)
  have "\<not> is_reference_chain ?T" by simp
  from C7_reference_collapsing [of "[True, True, False]" ?T "[]" False example_writer]
    C7_reference_collapsing [of "[False, False]" ?T "[]" False example_writer]
  show ?thesis
    by (simp add: T no_suffix_def)
qed

subsection \<open>C1: the guard of a static assert\<close>

lemma static_assert_guard_loop_find:
  "static_assert_guard_loop enclosing cpp_meta_expr message
     = (case find has_predefined_guard enclosing of
          None \<Rightarrow> None
        | Some p \<Rightarrow>
            Some (''static_assert('' @ always_true_guard_name (kind (decl_type p)) @ ''<''
                    @ decl_name p @ ''>::value && '' @ cpp_meta_expr @ '', '' @ [double_quote]
                    @ message @ [double_quote] @ '');''))"
  by (induction enclosing)
    (auto simp: has_predefined_guard_def always_true_guard_name_def)

text \<open>
  C1: with a non-empty list of enclosing parameters, \<open>static_assert_to_cpp\<close> writes exactly
  one element to the template body.  If the expression references an enclosing parameter
  this is the plain \<open>static_assert\<close>.  Otherwise, if some enclosing parameter has kind Bool,
  Int64 or Type, the condition is prefixed with \<open>AlwaysTrueFromBool\<close>, \<open>AlwaysTrueFromInt64\<close>
  or \<open>AlwaysTrueFromType\<close> (by the kind of the first such parameter \<open>p\<close>) instantiated on
  \<open>p\<close>.  Otherwise the element defines a struct template with a fresh name, whose one
  parameter is declared like the first enclosing parameter and whose member \<open>value\<close> is
  \<open>true\<close>, followed by the \<open>static_assert\<close> whose condition is prefixed with the
  instantiation of that template on the first enclosing parameter.  The only failures are
  those of the emission of the expression.
\<close>

theorem C1_static_assert_guard:
  assumes "enclosing \<noteq> []"
  shows "static_assert_to_cpp expr message enclosing w
     = (case expr_to_cpp expr enclosing w of
          Inl e \<Rightarrow> Inl e
        | Inr (cpp_meta_expr, w1) \<Rightarrow>
            if references_any_of expr (set (map decl_name enclosing)) then
              Inr ((), write_template_body_elem
                         (''static_assert('' @ cpp_meta_expr @ '', '' @ [double_quote] @ message
                            @ [double_quote] @ '');'') w1)
            else
              (case find has_predefined_guard enclosing of
                 Some p \<Rightarrow>
                   Inr ((), write_template_body_elem
                              (''static_assert('' @ always_true_guard_name (kind (decl_type p))
                                 @ ''<'' @ decl_name p @ ''>::value && '' @ cpp_meta_expr @ '', ''
                                 @ [double_quote] @ message @ [double_quote] @ '');'') w1)
               | None \<Rightarrow>
                   Inr ((), write_template_body_elem
                              (''            // Custom AlwaysTrueFor* template\<newline>''
                                 @ ''            template <''
                                 @ type_to_template_param_declaration (decl_type (hd enclosing))
                                 @ ''>\<newline>''
                                 @ ''            struct '' @ identifier_generator w1 (identifiers_drawn w1)
                                 @ '' {\<newline>''
                                 @ ''              static constexpr bool value = true;\<newline>''
                                 @ ''            };\<newline>''
                                 @ ''            static_assert(''
                                 @ identifier_generator w1 (identifiers_drawn w1) @ ''<''
                                 @ decl_name (hd enclosing) @ ''>::value && '' @ cpp_meta_expr
                                 @ '', '' @ [double_quote] @ message @ [double_quote] @ '');\<newline>''
                                 @ ''            '')
                              (w1\<lparr>identifiers_drawn := Suc (identifiers_drawn w1)\<rparr>))))"
  using assms
  by (simp add: static_assert_to_cpp_def static_assert_guard_loop_find new_id_def
      custom_always_true_text_def split: sum.splits prod.splits option.splits)

text \<open>
  Three constant assertions \<open>true\<close>.  In a template with the parameters \<open>F\<close> (a template),
  \<open>n\<close> (Int64) and \<open>b\<close> (Bool) the assertion is guarded by \<open>AlwaysTrueFromInt64<n>\<close>.  In a
  template whose only parameter \<open>F\<close> is a template taking a type, the struct template \<open>X0\<close>
  is defined and the assertion is guarded by \<open>X0<F>\<close>.  The assertion \<open>!b\<close> in a template
  with the parameter \<open>b\<close> is written as it is.
\<close>

theorem C1_static_assert_guard_witness:
  "static_assert_to_cpp (ir0_Literal (LiteralBool True)) ''msg''
       [\<lparr>decl_type = ir0_TemplateType [ir0_TypeType], decl_name = ''F''\<rparr>,
        \<lparr>decl_type = ir0_Int64Type, decl_name = ''n''\<rparr>,
        \<lparr>decl_type = ir0_BoolType, decl_name = ''b''\<rparr>] example_writer
     = Inr ((), example_writer
                  \<lparr>template_body_strings :=
                     Some [''static_assert(AlwaysTrueFromInt64<n>::value && true, '' @ [double_quote]
                             @ ''msg'' @ [double_quote] @ '');'']\<rparr>)
   \<and> static_assert_to_cpp (ir0_Literal (LiteralBool True)) ''msg''
       [\<lparr>decl_type = ir0_TemplateType [ir0_TypeType], decl_name = ''F''\<rparr>] example_writer
     = Inr ((), example_writer
                  \<lparr>identifiers_drawn := 1,
                   template_body_strings :=
                     Some [''            // Custom AlwaysTrueFor* template\<newline>''
                           @ ''            template <template <typename> class>\<newline>''
                           @ ''            struct X0 {\<newline>''
                           @ ''              static constexpr bool value = true;\<newline>''
                           @ ''            };\<newline>''
                           @ ''            static_assert(X0<F>::value && true, '' @ [double_quote]
                           @ ''msg'' @ [double_quote] @ '');\<newline>''
                           @ ''            '']\<rparr>)
   \<and> static_assert_to_cpp (ir0_NotExpr (ir0_AtomicTypeLiteral ''b'' True False ir0_BoolType)) ''msg''
       [\<lparr>decl_type = ir0_BoolType, decl_name = ''b''\<rparr>] example_writer
     = Inr ((), example_writer
                  \<lparr>template_body_strings :=
                     Some [''static_assert(!(b), '' @ [double_quote] @ ''msg'' @ [double_quote]
                             @ '');'']\<rparr>)"
  using C1_static_assert_guard [of "[\<lparr>decl_type = ir0_TemplateType [ir0_TypeType], decl_name = ''F''\<rparr>,
        \<lparr>decl_type = ir0_Int64Type, decl_name = ''n''\<rparr>,
        \<lparr>decl_type = ir0_BoolType, decl_name = ''b''\<rparr>]" "ir0_Literal (LiteralBool True)" "''msg''"
        example_writer]
    C1_static_assert_guard [of "[\<lparr>decl_type = ir0_TemplateType [ir0_TypeType], decl_name = ''F''\<rparr>]"
        "ir0_Literal (LiteralBool True)" "''msg''" example_writer]
    C1_static_assert_guard [of "[\<lparr>decl_type = ir0_BoolType, decl_name = ''b''\<rparr>]"
        "ir0_NotExpr (ir0_AtomicTypeLiteral ''b'' True False ir0_BoolType)" "''msg''" example_writer]
  by (simp add: emitter_simps has_predefined_guard_def always_true_guard_name_def
      write_template_body_elem_def example_writer_def string_of_nat.simps
      atomic_type_literal_expr_to_cpp_def no_suffix_def)

subsection \<open>C2: the names of the Select1st wrappers\<close>

text \<open>
  Apart from the entry for an Int64 argument and a variadic parameter, the table of
  \<open>template_instantiation_to_cpp\<close> gives the name \<open>Select1stXY\<close> of the two kinds, which is
  one of the nine predefined names; it has no entry for a variadic argument.
\<close>

lemma select1st_variant_table_predefined:
  assumes "select1st_variant_table k1 k2 = Inr name"
    and "(k1, k2) \<noteq> (ExprKind_INT64, ExprKind_VARIADIC_TYPE)"
  shows "claimed_select1st_name k1 k2 = Some name \<and> name \<in> set predefined_select1st_names"
  using assms
  by (cases k1; cases k2)
    (simp_all add: claimed_select1st_name_def kind_word_def predefined_select1st_names_def)

lemma select1st_variant_table_variadic_argument:
  "select1st_variant_table ExprKind_VARIADIC_TYPE k2 = Inl KeyError"
  by (cases k2) simp_all

text \<open>
  C2 fails for the instantiation \<open>F<5>\<close>, flagged as possibly triggering static asserts, in
  a template whose only parameter is the variadic \<open>Ts\<close>: no argument references \<open>Ts\<close>, the
  argument \<open>5\<close> has kind Int64 and the parameter has kind variadic type, neither of them
  Template, and the emitter wraps the argument in \<open>Select1stInt64TypeType\<close>.  The table has
  this name for the two kinds; the name for them with the variadic kind treated as Type is
  \<open>Select1stInt64Type\<close>, and \<open>Select1stInt64TypeType\<close> is none of the nine predefined names.
\<close>

theorem C2_select1st_int64_variadic:
  "template_instantiation_to_cpp
       (ir0_AtomicTypeLiteral ''F'' False True (ir0_TemplateType [ir0_Int64Type]))
       [ir0_Literal (LiteralInt 5)] True
       [\<lparr>decl_type = ir0_VariadicType, decl_name = ''Ts''\<rparr>] example_writer False
     = Inr (''F<Select1stInt64TypeType<5LL, Ts>::value>'', example_writer)
   \<and> select1st_variant_table ExprKind_INT64 ExprKind_VARIADIC_TYPE = Inr ''Select1stInt64TypeType''
   \<and> claimed_select1st_name ExprKind_INT64 ExprKind_VARIADIC_TYPE = Some ''Select1stInt64Type''
   \<and> ''Select1stInt64TypeType'' \<notin> set predefined_select1st_names"
proof -
  have "template_instantiation_to_cpp
       (ir0_AtomicTypeLiteral ''F'' False True (ir0_TemplateType [ir0_Int64Type]))
       [ir0_Literal (LiteralInt 5)] True
       [\<lparr>decl_type = ir0_VariadicType, decl_name = ''Ts''\<rparr>] example_writer False
     = Inr (''F<Select1stInt64TypeType<5LL, Ts>::value>'', example_writer)"
    by (simp add: emitter_simps select_best_arg_decl_for_select1st_def
        select_best_arg_expr_index_for_select1st_def for_local_def literal_to_cpp.simps
        str_int_def string_of_nat.simps atomic_type_literal_expr_to_cpp_def no_suffix_def)
  then show ?thesis
    by (simp add: claimed_select1st_name_def kind_word_def predefined_select1st_names_def)
qed

subsection \<open>C9: the public names of a transformed header\<close>

text \<open>The expression methods of the base class rebuild an expression equal to the given one.\<close>

lemma transform_expr_id: "transform_expr e = e"
  by (induction e) (simp_all add: map_idI)

text \<open>
  C9: whatever the two methods \<open>transform_template_defn\<close> and \<open>transform_toplevel_elem\<close> of a
  transformation do to the writer, a run of \<open>transform_header\<close> that returns a header returns
  one with the \<open>public_names\<close> of the given header.
\<close>

theorem C9_public_names_preserved:
  assumes "transform_header self header generator = Inr header'"
  shows "public_names header' = public_names header"
  using assms by (auto simp: transform_header_def split: sum.splits)

text \<open>
  The base class on a header with the template \<open>f\<close> and a top-level static assert: the
  header is rebuilt as it is, with the public name \<open>f\<close>.
\<close>

theorem C9_public_names_preserved_witness:
  "transform_header base_Transformation
       \<lparr>template_defns =
          [ir0_TemplateDefn [\<lparr>decl_type = ir0_BoolType, decl_name = ''b''\<rparr>]
             (Some (ir0_TemplateSpecialization [\<lparr>decl_type = ir0_BoolType, decl_name = ''b''\<rparr>] None
                      [ir0_ConstantDef ''value''
                         (ir0_NotExpr (ir0_AtomicTypeLiteral ''b'' True False ir0_BoolType))]))
             [] ''f'' ''the function f'' [''value'']],
        toplevel_content = [ir0_StaticAssert (ir0_Literal (LiteralBool True)) ''ok''],
        public_names = {''f''}\<rparr> (\<lambda>n. ''X'' @ string_of_nat n)
     = Inr \<lparr>template_defns =
          [ir0_TemplateDefn [\<lparr>decl_type = ir0_BoolType, decl_name = ''b''\<rparr>]
             (Some (ir0_TemplateSpecialization [\<lparr>decl_type = ir0_BoolType, decl_name = ''b''\<rparr>] None
                      [ir0_ConstantDef ''value''
                         (ir0_NotExpr (ir0_AtomicTypeLiteral ''b'' True False ir0_BoolType))]))
             [] ''f'' ''the function f'' [''value'']],
        toplevel_content = [ir0_StaticAssert (ir0_Literal (LiteralBool True)) ''ok''],
        public_names = {''f''}\<rparr>"
proof -
  let ?h = "\<lparr>template_defns =
          [ir0_TemplateDefn [\<lparr>decl_type = ir0_BoolType, decl_name = ''b''\<rparr>]
             (Some (ir0_TemplateSpecialization [\<lparr>decl_type = ir0_BoolType, decl_name = ''b''\<rparr>] None
                      [ir0_ConstantDef ''value''
                         (ir0_NotExpr (ir0_AtomicTypeLiteral ''b'' True False ir0_BoolType))]))
             [] ''f'' ''the function f'' [''value'']],
        toplevel_content = [ir0_StaticAssert (ir0_Literal (LiteralBool True)) ''ok''],
        public_names = {''f''}\<rparr>"
  have run: "transform_header base_Transformation ?h (\<lambda>n. ''X'' @ string_of_nat n) = Inr ?h"
    by (simp add: transform_header_def base_Transformation_def ToplevelWriter_def
        writer_write_def toplevel_write_def base_transform_toplevel_elem_def
        transform_template_arg_decl_def transform_static_assert_def transform_constant_def_def
        StaticAssert_init_def ConstantDef_init_def TemplateDefn_init_def
        specialization_patterns_def newline_def)
  from C9_public_names_preserved [OF run] run show ?thesis by simp
qed


end
